theory Spec2Isabelle
  imports Complex_Main "HOL-Library.Word" "HOL-Library.Monad_Syntax"
begin

unbundle bit_operations_syntax

section \<open>The string functions of Go's library that the program calls\<close>

text \<open>
  A Go string is a sequence of bytes, modelled as \<open>string\<close> (a list of 8-bit
  characters). The functions below are those of package \<open>strings\<close>, modelled by what they
  return (their implementations are not part of the program).
\<close>

definition HasPrefix :: "string \<Rightarrow> string \<Rightarrow> bool" where
  "HasPrefix s pre \<longleftrightarrow> take (length pre) s = pre"

definition HasSuffix :: "string \<Rightarrow> string \<Rightarrow> bool" where
  "HasSuffix s suf \<longleftrightarrow> length suf \<le> length s \<and> drop (length s - length suf) s = suf"

definition TrimSuffix :: "string \<Rightarrow> string \<Rightarrow> string" where
  "TrimSuffix s suf = (if HasSuffix s suf then take (length s - length suf) s else s)"

text \<open>\<open>strings.Index\<close>: the byte offset of the first occurrence, \<open>-1\<close> when there is none.\<close>

fun Index :: "string \<Rightarrow> string \<Rightarrow> int" where
  "Index [] substr = (if substr = [] then 0 else - 1)"
| "Index (c # s) substr =
     (if HasPrefix (c # s) substr then 0
      else (let i = Index s substr in if i < 0 then - 1 else i + 1))"

definition Contains :: "string \<Rightarrow> string \<Rightarrow> bool" where
  "Contains s substr \<longleftrightarrow> Index s substr \<ge> 0"

text \<open>
  \<open>unicode.IsSpace\<close> holds of the code points U+0009 to U+000D, U+0020, U+0085, U+00A0,
  U+1680, U+2000 to U+200A, U+2028, U+2029, U+202F, U+205F and U+3000. \<open>spaceWidth s\<close> is
  the number of bytes of the white-space code point whose UTF-8 encoding starts \<open>s\<close>, and
  \<open>0\<close> when \<open>s\<close> starts with anything else; \<open>spaceWidthRev\<close> is the same for the code
  point that ends a string, given the string reversed.
\<close>

definition asciiSpace :: "char \<Rightarrow> bool" where
  "asciiSpace c \<longleftrightarrow> c = CHR 0x09 \<or> c = CHR 0x0A \<or> c = CHR 0x0B \<or> c = CHR 0x0C \<or> c = CHR 0x0D \<or> c = CHR '' ''"

fun spaceWidth :: "string \<Rightarrow> nat" where
  "spaceWidth [] = 0"
| "spaceWidth (c # s) =
     (if asciiSpace c then 1
      else if c = CHR 0xC2 \<and> (take 1 s = [CHR 0x85] \<or> take 1 s = [CHR 0xA0]) then 2
      else if c = CHR 0xE1 \<and> take 2 s = [CHR 0x9A, CHR 0x80] then 3
      else if c = CHR 0xE2 \<and> take 1 s = [CHR 0x80] \<and> length s \<ge> 2 \<and>
              ((0x80 \<le> (of_char (s ! 1) :: nat) \<and> (of_char (s ! 1) :: nat) \<le> 0x8A) \<or>
               s ! 1 = CHR 0xA8 \<or> s ! 1 = CHR 0xA9 \<or> s ! 1 = CHR 0xAF) then 3
      else if c = CHR 0xE2 \<and> take 2 s = [CHR 0x81, CHR 0x9F] then 3
      else if c = CHR 0xE3 \<and> take 2 s = [CHR 0x80, CHR 0x80] then 3
      else 0)"

fun spaceWidthRev :: "string \<Rightarrow> nat" where
  "spaceWidthRev [] = 0"
| "spaceWidthRev (c # s) =
     (if asciiSpace c then 1
      else if (c = CHR 0x85 \<or> c = CHR 0xA0) \<and> take 1 s = [CHR 0xC2] then 2
      else if c = CHR 0x80 \<and> take 2 s = [CHR 0x9A, CHR 0xE1] then 3
      else if ((0x80 \<le> (of_char c :: nat) \<and> (of_char c :: nat) \<le> 0x8A) \<or>
               c = CHR 0xA8 \<or> c = CHR 0xA9 \<or> c = CHR 0xAF) \<and> take 2 s = [CHR 0x80, CHR 0xE2] then 3
      else if c = CHR 0x9F \<and> take 2 s = [CHR 0x81, CHR 0xE2] then 3
      else if c = CHR 0x80 \<and> take 2 s = [CHR 0x80, CHR 0xE3] then 3
      else 0)"

function trimLeftSpace :: "string \<Rightarrow> string" where
  "trimLeftSpace s = (if spaceWidth s = 0 then s else trimLeftSpace (drop (spaceWidth s) s))"
  by pat_completeness auto
termination
proof (relation "measure length", goal_cases)
  case 1
  show ?case by simp
next
  case (2 s)
  then have "s \<noteq> []" by (cases s) simp_all
  with 2 show ?case by simp
qed

function trimRevSpace :: "string \<Rightarrow> string" where
  "trimRevSpace s = (if spaceWidthRev s = 0 then s else trimRevSpace (drop (spaceWidthRev s) s))"
  by pat_completeness auto
termination
proof (relation "measure length", goal_cases)
  case 1
  show ?case by simp
next
  case (2 s)
  then have "s \<noteq> []" by (cases s) simp_all
  with 2 show ?case by simp
qed

declare trimLeftSpace.simps [simp del] trimRevSpace.simps [simp del]

definition trimRightSpace :: "string \<Rightarrow> string" where
  "trimRightSpace s = rev (trimRevSpace (rev s))"

definition TrimSpace :: "string \<Rightarrow> string" where
  "TrimSpace s = trimRightSpace (trimLeftSpace s)"

text \<open>\<open>strings.Fields\<close>: the maximal runs of bytes that hold no white space. \<open>fieldsAux\<close>
  carries the field being read, reversed.\<close>

function fieldsAux :: "string \<Rightarrow> string \<Rightarrow> string list" where
  "fieldsAux cur [] = (if cur = [] then [] else [rev cur])"
| "fieldsAux cur (c # s) =
     (if spaceWidth (c # s) = 0 then fieldsAux (c # cur) s
      else (if cur = [] then [] else [rev cur]) @ fieldsAux [] (drop (spaceWidth (c # s)) (c # s)))"
  by pat_completeness auto
termination
  by (relation "measure (\<lambda>(cur, s). length s)") auto

definition Fields :: "string \<Rightarrow> string list" where
  "Fields s = fieldsAux [] s"

text \<open>\<open>strings.Split\<close> with a separator that is not empty, which is how the program calls
  it: the pieces between the successive occurrences of the separator, found from the left.\<close>

function (sequential) Split :: "string \<Rightarrow> string \<Rightarrow> string list" where
  "Split s (c # sep) =
     (let m = Index s (c # sep)
      in if m < 0 then [s]
         else take (nat m) s # Split (drop (nat m + length (c # sep)) s) (c # sep))"
| "Split s [] = undefined"
  by pat_completeness auto
termination
proof (relation "measure (\<lambda>(s, sep). length s)", goal_cases)
  case 1
  show ?case by simp
next
  case (2 s c sep m)
  then have "s \<noteq> []" by (cases s) auto
  then show ?case by simp
qed

declare Split.simps [simp del]

text \<open>\<open>strings.Replace(s, old, new, 1)\<close> with \<open>old\<close> not empty: the first occurrence of
  \<open>old\<close> is replaced.\<close>

definition ReplaceFirst :: "string \<Rightarrow> string \<Rightarrow> string \<Rightarrow> string" where
  "ReplaceFirst s old new =
     (let m = Index s old
      in if m < 0 then s else take (nat m) s @ new @ drop (nat m + length old) s)"

section \<open>Time (Go's package time) and the data model (pkg/models)\<close>

text \<open>
  A \<open>time.Duration\<close> is a signed 64-bit count of nanoseconds; sums and products wrap
  around, and \<open>sint\<close> reads the value.
\<close>

type_synonym Duration = "64 word"

definition Second :: Duration where "Second = 1000000000"
definition Minute :: Duration where "Minute = 60 * Second"
definition Hour :: Duration where "Hour = 60 * Minute"

text \<open>
  A \<open>time.Time\<close> is an instant with a location. The instant is held as Go holds it: the
  seconds since 1970-01-01 00:00:00 UTC and the nanoseconds within the second. A
  \<open>time.Location\<close> is a table of zone transitions: the offset from UTC (in seconds, east
  positive) in force before the first transition, and for each transition the instant
  from which its offset is in force, in ascending order. (The rule a zone file gives for
  the time after its last transition is not modelled: the last offset stays in force.)
  \<open>lookupZone\<close> is the method \<open>lookup\<close> of a location: the offset in force at an instant,
  and the instants at which that offset starts and ends, \<open>None\<close> standing for the
  unbounded start and end that Go writes as the least and the greatest 64-bit integer.
\<close>

record Location =
  firstOffset :: int
  transitions :: "(int \<times> int) list"

definition UTC :: Location where
  "UTC = \<lparr>firstOffset = 0, transitions = []\<rparr>"

fun lookupFrom :: "int \<Rightarrow> int option \<Rightarrow> (int \<times> int) list \<Rightarrow> int \<Rightarrow> int \<times> int option \<times> int option" where
  "lookupFrom offset start [] sec = (offset, start, None)"
| "lookupFrom offset start ((w, off) # rest) sec =
     (if sec < w then (offset, start, Some w) else lookupFrom off (Some w) rest sec)"

definition lookupZone :: "Location \<Rightarrow> int \<Rightarrow> int \<times> int option \<times> int option" where
  "lookupZone l sec = lookupFrom (firstOffset l) None (transitions l) sec"

definition zoneOffset :: "Location \<Rightarrow> int \<Rightarrow> int" where
  "zoneOffset l sec = fst (lookupZone l sec)"

record Time =
  unixSec :: int
  nsec :: int
  loc :: Location

text \<open>The seconds of the wall clock that a time shows in its location, counted from
  1970-01-01 00:00:00 on that clock. The calendar functions are those of package
  \<open>time\<close>, modelled by what they return (the proleptic Gregorian calendar).\<close>

definition localSec :: "Time \<Rightarrow> int" where
  "localSec t = unixSec t + zoneOffset (loc t) (unixSec t)"

definition isLeap :: "int \<Rightarrow> bool" where
  "isLeap year \<longleftrightarrow> year mod 4 = 0 \<and> (year mod 100 \<noteq> 0 \<or> year mod 400 = 0)"

text \<open>The days from 0001-01-01 to the first of January of a year, and the days of a
  common year before each month.\<close>

definition daysBeforeYear :: "int \<Rightarrow> int" where
  "daysBeforeYear year = (let y = year - 1 in 365 * y + y div 4 - y div 100 + y div 400)"

definition daysBefore :: "int list" where
  "daysBefore = [0, 31, 59, 90, 120, 151, 181, 212, 243, 273, 304, 334, 365]"

definition daysIn :: "int \<Rightarrow> int \<Rightarrow> int" where
  "daysIn month year =
     (if month = 2 \<and> isLeap year then 29
      else daysBefore ! nat month - daysBefore ! nat (month - 1))"

text \<open>
  \<open>timeDate\<close> is \<open>time.Date\<close>. Values out of range are normalised: months overflow into
  years, nanoseconds into seconds, and so on up to days, which are counted on from the
  first of the month. 0001-01-01 is day \<open>-719162\<close> of the Unix era. The seconds so found
  are those of the wall clock; \<open>zoneAdjust\<close> turns them into an instant as \<open>time.Date\<close>
  does: it looks up the offset as if the wall-clock seconds were the instant, and when
  the instant that offset gives lies outside the period of the offset, it takes the
  offset in force at that instant instead.
\<close>

definition zoneAdjust :: "Location \<Rightarrow> int \<Rightarrow> int" where
  "zoneAdjust l unix =
     (let (offset, start, end) = lookupZone l unix
      in if offset \<noteq> 0 then
           (let utc = unix - offset;
                offset =
                  (if (case start of None \<Rightarrow> False | Some a \<Rightarrow> utc < a) \<or>
                      (case end of None \<Rightarrow> False | Some b \<Rightarrow> utc \<ge> b)
                   then zoneOffset l utc else offset)
            in unix - offset)
         else unix)"

definition timeDate :: "int \<Rightarrow> int \<Rightarrow> int \<Rightarrow> int \<Rightarrow> int \<Rightarrow> int \<Rightarrow> int \<Rightarrow> Location \<Rightarrow> Time" where
  "timeDate year month day hour minute sec ns l =
     (let m = month - 1;
          year = year + m div 12;
          m = m mod 12;
          sec = sec + ns div 1000000000;
          ns = ns mod 1000000000;
          minute = minute + sec div 60;
          sec = sec mod 60;
          hour = hour + minute div 60;
          minute = minute mod 60;
          day = day + hour div 24;
          hour = hour mod 24;
          d = daysBeforeYear year + daysBefore ! nat m
              + (if isLeap year \<and> m \<ge> 2 then 1 else 0) + (day - 1);
          unix = (d - 719162) * 86400 + hour * 3600 + minute * 60 + sec
      in \<lparr>unixSec = zoneAdjust l unix, nsec = ns, loc = l\<rparr>)"

text \<open>The days since 0001-01-01 of the date a time shows in its location, and the year
  and the day within the year (from 0) of a number of days: whole cycles of 400, 100, 4
  and 1 years are cut off in turn, the last cycle of 100 years and the last year of 4
  being one day longer.\<close>

definition absDays :: "Time \<Rightarrow> int" where
  "absDays t = localSec t div 86400 + 719162"

definition yearDay :: "int \<Rightarrow> int \<times> int" where
  "yearDay d =
     (let n400 = d div 146097;
          d = d mod 146097;
          n100 = d div 36524;
          n100 = n100 - n100 div 4;
          d = d - 36524 * n100;
          n4 = d div 1461;
          d = d mod 1461;
          n1 = d div 365;
          n1 = n1 - n1 div 4;
          d = d - 365 * n1
      in (1 + 400 * n400 + 100 * n100 + 4 * n4 + n1, d))"

text \<open>The month and the day of the month of a day within a year.\<close>

definition monthDay :: "int \<Rightarrow> int \<Rightarrow> int \<times> int" where
  "monthDay year yday =
     (if isLeap year \<and> yday = 31 + 29 - 1 then (2, 29)
      else
        (let day = (if isLeap year \<and> yday > 31 + 29 - 1 then yday - 1 else yday);
             month = day div 31;
             end = daysBefore ! nat (month + 1);
             (month, begin) = (if day \<ge> end then (month + 1, end) else (month, daysBefore ! nat month))
         in (month + 1, day - begin + 1)))"

definition Year :: "Time \<Rightarrow> int" where
  "Year t = fst (yearDay (absDays t))"

definition Month :: "Time \<Rightarrow> int" where
  "Month t = (let (year, yday) = yearDay (absDays t) in fst (monthDay year yday))"

definition Day :: "Time \<Rightarrow> int" where
  "Day t = (let (year, yday) = yearDay (absDays t) in snd (monthDay year yday))"



definition After :: "Time \<Rightarrow> Time \<Rightarrow> bool" where
  "After t u \<longleftrightarrow> unixSec t > unixSec u \<or> (unixSec t = unixSec u \<and> nsec t > nsec u)"

text \<open>\<open>t.Sub(u)\<close>: the difference in nanoseconds, or the largest or smallest duration
  when the difference does not fit 64 bits.\<close>

definition Sub :: "Time \<Rightarrow> Time \<Rightarrow> Duration" where
  "Sub t u =
     (let d = (unixSec t - unixSec u) * 1000000000 + (nsec t - nsec u)
      in if d < - (2 ^ 63) then word_of_int (- (2 ^ 63))
         else if d > 2 ^ 63 - 1 then word_of_int (2 ^ 63 - 1)
         else word_of_int d)"

text \<open>The zero \<open>time.Time{}\<close> is 0001-01-01 00:00:00 UTC.\<close>

definition zeroTime :: Time where
  "zeroTime = \<lparr>unixSec = - 62135596800, nsec = 0, loc = UTC\<rparr>"

record LogbookEntry =
  Start :: Time
  End :: Time
  Duration :: Duration

record PageReference =
  SourceFile :: string
  SourcePage :: string
  TargetPage :: string
  LineNumber :: int
  Context :: string

text \<open>A link record from one page to another, for the examples.\<close>

definition link :: "string \<Rightarrow> string \<Rightarrow> PageReference" where
  "link src tgt =
     \<lparr>SourceFile = ''pages/'' @ src @ ''.md'', SourcePage = src, TargetPage = tgt,
      LineNumber = 1, Context = []\<rparr>"

text \<open>\<open>TaskStatus\<close> and \<open>Priority\<close> are string types with named constants.\<close>

type_synonym TaskStatus = string
type_synonym Priority = string

definition StatusNOW :: TaskStatus where "StatusNOW = ''NOW''"
definition StatusLATER :: TaskStatus where "StatusLATER = ''LATER''"
definition StatusTODO :: TaskStatus where "StatusTODO = ''TODO''"
definition StatusDOING :: TaskStatus where "StatusDOING = ''DOING''"
definition StatusDONE :: TaskStatus where "StatusDONE = ''DONE''"

definition PriorityHigh :: Priority where "PriorityHigh = ''A''"
definition PriorityMedium :: Priority where "PriorityMedium = ''B''"
definition PriorityLow :: Priority where "PriorityLow = ''C''"
definition PriorityNone :: Priority where "PriorityNone = []"

record Task =
  Status :: TaskStatus
  Priority :: Priority
  Description :: string
  PageRefs :: "string list"
  SourceFile :: string
  LineNumber :: int
  Logbook :: "LogbookEntry list"

fun sumDurations :: "Duration \<Rightarrow> LogbookEntry list \<Rightarrow> Duration" where
  "sumDurations tot [] = tot"
| "sumDurations tot (entry # rest) = sumDurations (tot + Duration entry) rest"

definition TotalDuration :: "Task \<Rightarrow> Duration" where
  "TotalDuration t = sumDurations 0 (Logbook t)"

datatype FileType = FileTypeJournal | FileTypePage

record File =
  Path :: string
  AbsolutePath :: string
  Type :: FileType
  ModTime :: Time

section \<open>Parsing times (\<open>time.Parse\<close>)\<close>

text \<open>
  \<open>time.Parse\<close> is called with three layouts: \<open>"2006-01-02 Mon 15:04:05"\<close> for the
  time stamps of a clock line, \<open>"2006_01_02"\<close> and \<open>"2006-01-02"\<close> for journal file names.
  The model follows the library element by element: a four-digit year; a two-digit
  month from 01 to 12; a two-digit day, checked against the length of the month at the
  end; a literal character of the layout matches itself; a space of the layout matches
  a run of spaces (or the end of the text); the day name is one of the seven
  three-letter names in any letter case, and is not compared with the date; the hour
  has one or two digits and is below 24; minutes and seconds have two digits and are
  below 60; after the seconds a fraction (a period or comma and digits) is accepted and
  gives the nanoseconds; nothing may follow. None of the layouts names a zone, so the
  result is a time in UTC.
\<close>

definition isDigit :: "string \<Rightarrow> nat \<Rightarrow> bool" where
  "isDigit s i \<longleftrightarrow>
     i < length s \<and> (of_char CHR ''0'' :: nat) \<le> of_char (s ! i) \<and>
     (of_char (s ! i) :: nat) \<le> of_char CHR ''9''"

definition digitVal :: "char \<Rightarrow> int" where
  "digitVal c = int (of_char c) - 48"

definition getnum :: "string \<Rightarrow> bool \<Rightarrow> (int \<times> string) option" where
  "getnum s fixed =
     (if \<not> isDigit s 0 then None
      else if \<not> isDigit s 1 then (if fixed then None else Some (digitVal (s ! 0), drop 1 s))
      else Some (digitVal (s ! 0) * 10 + digitVal (s ! 1), drop 2 s))"

definition getYear :: "string \<Rightarrow> (int \<times> string) option" where
  "getYear s =
     (if length s < 4 \<or> \<not> isDigit s 0 then None
      else if isDigit s 1 \<and> isDigit s 2 \<and> isDigit s 3
      then Some (digitVal (s ! 0) * 1000 + digitVal (s ! 1) * 100 + digitVal (s ! 2) * 10
                 + digitVal (s ! 3), drop 4 s)
      else None)"

definition skipChar :: "char \<Rightarrow> string \<Rightarrow> string option" where
  "skipChar c s = (case s of [] \<Rightarrow> None | x # rest \<Rightarrow> if x = c then Some rest else None)"

definition skipSpaces :: "string \<Rightarrow> string option" where
  "skipSpaces s =
     (if length s > 0 \<and> s ! 0 \<noteq> CHR '' '' then None
      else Some (dropWhile (\<lambda>c. c = CHR '' '') s))"

text \<open>Two letters match when they are equal or differ in case only.\<close>

definition foldMatch :: "char \<Rightarrow> char \<Rightarrow> bool" where
  "foldMatch c1 c2 \<longleftrightarrow>
     c1 = c2 \<or>
     ((of_char c1 :: nat) OR 32) = ((of_char c2 :: nat) OR 32) \<and>
     (of_char CHR ''a'' :: nat) \<le> ((of_char c1 :: nat) OR 32) \<and>
     ((of_char c1 :: nat) OR 32) \<le> of_char CHR ''z''"

definition shortDayNames :: "string list" where
  "shortDayNames = [''Sun'', ''Mon'', ''Tue'', ''Wed'', ''Thu'', ''Fri'', ''Sat'']"

fun lookupName :: "string list \<Rightarrow> string \<Rightarrow> string option" where
  "lookupName [] val = None"
| "lookupName (v # tab) val =
     (if length val \<ge> length v \<and> list_all2 foldMatch (take (length v) val) v
      then Some (drop (length v) val)
      else lookupName tab val)"

text \<open>The fraction that may follow the seconds: the nanoseconds it stands for and the
  text after it. At most nine digits count.\<close>

definition commaOrPeriod :: "char \<Rightarrow> bool" where
  "commaOrPeriod c \<longleftrightarrow> c = CHR ''.'' \<or> c = CHR '',''"

fun digitsValue :: "int \<Rightarrow> string \<Rightarrow> int" where
  "digitsValue acc [] = acc"
| "digitsValue acc (c # s) = digitsValue (acc * 10 + digitVal c) s"

definition fraction :: "string \<Rightarrow> int \<times> string" where
  "fraction s =
     (if length s \<ge> 2 \<and> commaOrPeriod (s ! 0) \<and> isDigit s 1
      then (let ds = takeWhile (\<lambda>c. isDigit [c] 0) (drop 1 s);
                used = take 9 ds
            in (digitsValue 0 used * 10 ^ (9 - length used), drop (1 + length ds) s))
      else (0, s))"

text \<open>A failed check ends the parse.\<close>

definition require :: "bool \<Rightarrow> unit option" where
  "require b = (if b then Some () else None)"

text \<open>The elements \<open>year sep month sep day\<close>, which all three layouts start with.\<close>

definition parseYearMonthDay :: "char \<Rightarrow> string \<Rightarrow> ((int \<times> int \<times> int) \<times> string) option" where
  "parseYearMonthDay sep s =
     do {
       (year, s) \<leftarrow> getYear s;
       s \<leftarrow> skipChar sep s;
       (month, s) \<leftarrow> getnum s True;
       _ \<leftarrow> require (\<not> (month \<le> 0 \<or> 12 < month));
       s \<leftarrow> skipChar sep s;
       (day, s) \<leftarrow> getnum s True;
       Some ((year, month, day), s)
     }"

text \<open>The elements \<open>15:04:05\<close> and the fraction that may follow.\<close>

definition parseClock :: "string \<Rightarrow> ((int \<times> int \<times> int \<times> int) \<times> string) option" where
  "parseClock s =
     do {
       (hour, s) \<leftarrow> getnum s False;
       _ \<leftarrow> require (\<not> (hour < 0 \<or> 24 \<le> hour));
       s \<leftarrow> skipChar CHR '':'' s;
       (minute, s) \<leftarrow> getnum s True;
       _ \<leftarrow> require (\<not> (minute < 0 \<or> 60 \<le> minute));
       s \<leftarrow> skipChar CHR '':'' s;
       (sec, s) \<leftarrow> getnum s True;
       _ \<leftarrow> require (\<not> (sec < 0 \<or> 60 \<le> sec));
       (ns, s) \<leftarrow> Some (fraction s);
       Some ((hour, minute, sec, ns), s)
     }"

text \<open>\<open>time.Parse\<close> with the layouts \<open>"2006_01_02"\<close> (\<open>sep\<close> an underscore) and
  \<open>"2006-01-02"\<close> (\<open>sep\<close> a hyphen).\<close>

definition parseDateLayout :: "char \<Rightarrow> string \<Rightarrow> Time option" where
  "parseDateLayout sep s =
     do {
       ((year, month, day), s) \<leftarrow> parseYearMonthDay sep s;
       _ \<leftarrow> require (s = []);
       _ \<leftarrow> require (\<not> (day < 1 \<or> day > daysIn month year));
       Some (timeDate year month day 0 0 0 0 UTC)
     }"

text \<open>\<open>time.Parse(logseqTimeFormat, s)\<close> with
  \<open>logseqTimeFormat = "2006-01-02 Mon 15:04:05"\<close>.\<close>

definition parseLogseqTime :: "string \<Rightarrow> Time option" where
  "parseLogseqTime s =
     do {
       ((year, month, day), s) \<leftarrow> parseYearMonthDay CHR ''-'' s;
       s \<leftarrow> skipSpaces s;
       s \<leftarrow> lookupName shortDayNames s;
       s \<leftarrow> skipSpaces s;
       ((hour, minute, sec, ns), s) \<leftarrow> parseClock s;
       _ \<leftarrow> require (s = []);
       _ \<leftarrow> require (\<not> (day < 1 \<or> day > daysIn month year));
       Some (timeDate year month day hour minute sec ns UTC)
     }"

section \<open>The clock lines of a log block (internal/parser/logbook.go)\<close>

text \<open>
  \<open>clockLineRegex\<close> is \<open>CLOCK:\s*\[([^\]]+)\]--\[([^\]]+)\]\s*=>\s*(.+)\<close>.
  \<open>FindStringSubmatch\<close> gives the leftmost match and its three groups. Go's \<open>\s\<close> is
  one of tab, line feed, form feed, carriage return and space; \<open>.\<close> is any character but
  a line feed. Every part of the expression but the end can match in one way only; at
  the end, \<open>\s*\<close> takes as much white space as leaves a character other than a line feed
  for \<open>(.+)\<close> to start with, and \<open>(.+)\<close> runs up to the next line feed.
\<close>

definition reSpace :: "char \<Rightarrow> bool" where
  "reSpace c \<longleftrightarrow> c = CHR 0x09 \<or> c = CHR 0x0A \<or> c = CHR 0x0C \<or> c = CHR 0x0D \<or> c = CHR '' ''"

text \<open>\<open>matchDuration k s\<close>: the group \<open>(.+)\<close> after \<open>\s*\<close> has matched \<open>k\<close> characters
  of \<open>s\<close>, fewer if that fails.\<close>

fun matchDuration :: "nat \<Rightarrow> string \<Rightarrow> string option" where
  "matchDuration k s =
     (if drop k s \<noteq> [] \<and> hd (drop k s) \<noteq> CHR 0x0A
      then Some (takeWhile (\<lambda>c. c \<noteq> CHR 0x0A) (drop k s))
      else case k of 0 \<Rightarrow> None | Suc j \<Rightarrow> matchDuration j s)"

definition matchClockAt :: "string \<Rightarrow> (string \<times> string \<times> string) option" where
  "matchClockAt s =
     (if \<not> HasPrefix s ''CLOCK:'' then None else
      let s = dropWhile reSpace (drop 6 s) in
      if \<not> HasPrefix s ''['' then None else
      let startStr = takeWhile (\<lambda>c. c \<noteq> CHR '']'') (drop 1 s);
          s = drop (1 + length startStr) s in
      if startStr = [] \<or> \<not> HasPrefix s '']--['' then None else
      let endStr = takeWhile (\<lambda>c. c \<noteq> CHR '']'') (drop 4 s);
          s = drop (4 + length endStr) s in
      if endStr = [] \<or> \<not> HasPrefix s '']'' then None else
      let s = dropWhile reSpace (drop 1 s) in
      if \<not> HasPrefix s ''=>'' then None else
      let s = drop 2 s in
      case matchDuration (length (takeWhile reSpace s)) s of
        None \<Rightarrow> None
      | Some durationStr \<Rightarrow> Some (startStr, endStr, durationStr))"

fun findClockLine :: "string \<Rightarrow> (string \<times> string \<times> string) option" where
  "findClockLine [] = matchClockAt []"
| "findClockLine (c # s) =
     (case matchClockAt (c # s) of None \<Rightarrow> findClockLine s | Some m \<Rightarrow> Some m)"

text \<open>
  Go's \<open>int\<close> is a signed 64-bit integer on every platform the program is built
  for; the digits of a number are accumulated with wrap-around. An \<open>error\<close> is modelled
  as its message, on the left of a sum. None of the three integer parsers has a return
  statement with an error of its own.
\<close>

type_synonym goInt = "64 word"

fun simpleIntLoop :: "goInt \<Rightarrow> string \<Rightarrow> string + goInt" where
  "simpleIntLoop result [] = Inr result"
| "simpleIntLoop result (c # s) =
     (if (of_char c :: nat) < of_char CHR ''0'' \<or> (of_char c :: nat) > of_char CHR ''9'' then Inr 0
      else simpleIntLoop (result * 10 + of_nat (of_char c - of_char CHR ''0'')) s)"

definition parseSimpleInt :: "string \<Rightarrow> string + goInt" where
  "parseSimpleInt s = (let s = TrimSpace s in if s = [] then Inr 0 else simpleIntLoop 0 s)"

definition parseIntString :: "string \<Rightarrow> string + goInt" where
  "parseIntString s =
     (let s = TrimSpace s
      in case parseSimpleInt s of Inl err \<Rightarrow> Inl err | Inr n \<Rightarrow> Inr n)"

text \<open>\<open>parseIntegers\<close> takes pairs of a string and a pointer to an \<open>int\<close>; the values it
  stores through the pointers are the values of the list it returns.\<close>

fun parseIntegers :: "string list \<Rightarrow> string + goInt list" where
  "parseIntegers [] = Inr []"
| "parseIntegers (str # rest) =
     (case parseIntString str of
        Inl err \<Rightarrow> Inl err
      | Inr val \<Rightarrow> (case parseIntegers rest of Inl err \<Rightarrow> Inl err | Inr results \<Rightarrow> Inr (val # results)))"

definition parseLogseqDuration :: "string \<Rightarrow> string + Duration" where
  "parseLogseqDuration s =
     (let s = TrimSpace s;
          parts = Split s '':''
      in if length parts \<noteq> 3 then Inr 0
         else case parseIntegers [parts ! 0, parts ! 1, parts ! 2] of
                Inl err \<Rightarrow> Inl err
              | Inr vals \<Rightarrow> Inr ((vals ! 0) * Hour + (vals ! 1) * Minute + (vals ! 2) * Second))"

definition parseClockLine :: "string \<Rightarrow> LogbookEntry option" where
  "parseClockLine line =
     (case findClockLine line of
        None \<Rightarrow> None
      | Some (startStr, endStr, durationStr) \<Rightarrow>
          (case parseLogseqTime startStr of
             None \<Rightarrow> None
           | Some start \<Rightarrow>
               (case parseLogseqTime endStr of
                  None \<Rightarrow> None
                | Some end \<Rightarrow>
                    (let duration =
                           (case parseLogseqDuration durationStr of
                              Inl err \<Rightarrow> Sub end start
                            | Inr d \<Rightarrow> d)
                     in Some \<lparr>Start = start, End = end, Duration = duration\<rparr>))))"

text \<open>The loop of \<open>ParseLogbook\<close> over the lines after the \<open>:LOGBOOK:\<close> line.\<close>

fun logbookLoop :: "LogbookEntry list \<Rightarrow> nat \<Rightarrow> string list \<Rightarrow> LogbookEntry list \<times> nat" where
  "logbookLoop entries linesConsumed [] = (entries, linesConsumed)"
| "logbookLoop entries linesConsumed (l # rest) =
     (let line = TrimSpace l;
          linesConsumed = linesConsumed + 1
      in if Contains line '':END:'' then (entries, linesConsumed)
         else logbookLoop
                (case parseClockLine line of None \<Rightarrow> entries | Some entry \<Rightarrow> entries @ [entry])
                linesConsumed rest)"

definition ParseLogbook :: "string list \<Rightarrow> nat \<Rightarrow> LogbookEntry list \<times> nat" where
  "ParseLogbook lines startIdx =
     (if startIdx \<ge> length lines \<or> \<not> Contains (lines ! startIdx) '':LOGBOOK:'' then ([], 0)
      else logbookLoop [] 1 (drop (startIdx + 1) lines))"

section \<open>Tasks (internal/parser/tasks.go, internal/parser/references.go)\<close>

definition taskStatuses :: "TaskStatus list" where
  "taskStatuses = [StatusNOW, StatusLATER, StatusTODO, StatusDOING, StatusDONE]"

definition isTaskLine :: "string \<Rightarrow> bool" where
  "isTaskLine line =
     (let trimmed = TrimSpace line
      in HasPrefix trimmed ''- '' \<or> HasPrefix trimmed ''* '' \<or> HasPrefix trimmed ''+ '')"

fun findStatus :: "TaskStatus list \<Rightarrow> string \<Rightarrow> TaskStatus option" where
  "findStatus [] line = None"
| "findStatus (status # rest) line =
     (let marker = status @ '' ''
      in if Contains line marker then Some status else findStatus rest line)"

definition extractTaskStatus :: "string \<Rightarrow> TaskStatus option" where
  "extractTaskStatus line = findStatus taskStatuses line"

text \<open>\<open>extractPriority\<close>: the leftmost match of \<open>\[#([ABC])\]\<close>.\<close>

fun extractPriority :: "string \<Rightarrow> Priority" where
  "extractPriority [] = PriorityNone"
| "extractPriority (c # s) =
     (if c = CHR ''['' \<and> length s \<ge> 3 \<and> s ! 0 = CHR ''#'' \<and>
         (s ! 1 = CHR ''A'' \<or> s ! 1 = CHR ''B'' \<or> s ! 1 = CHR ''C'') \<and> s ! 2 = CHR '']''
      then [s ! 1]
      else extractPriority s)"

definition extractTaskDescription :: "string \<Rightarrow> TaskStatus \<Rightarrow> Priority \<Rightarrow> string" where
  "extractTaskDescription line status priority =
     (let marker = status @ '' '';
          idx = Index line marker
      in if idx = - 1 then TrimSpace line
         else
           (let description = drop (nat idx + length marker) line;
                description =
                  (if priority \<noteq> PriorityNone
                   then (let priorityMarker = ''[#'' @ priority @ ''] ''
                         in ReplaceFirst description priorityMarker [])
                   else description)
            in TrimSpace description))"

text \<open>\<open>ExtractPageReferences\<close>: the groups of all matches of \<open>\[\[([^\]]+)\]\]\<close>, found
  from the left without overlap.\<close>

function ExtractPageReferences :: "string \<Rightarrow> string list" where
  "ExtractPageReferences [] = []"
| "ExtractPageReferences (c # s) =
     (let inner = takeWhile (\<lambda>x. x \<noteq> CHR '']'') (drop 1 s);
          rest = drop (1 + length inner) s
      in if HasPrefix (c # s) ''[['' \<and> inner \<noteq> [] \<and> HasPrefix rest '']]''
         then inner # ExtractPageReferences (drop 2 rest)
         else ExtractPageReferences s)"
  by pat_completeness auto
termination
  by (relation "measure length") auto

text \<open>The loop of \<open>ParseTasks\<close>; \<open>i\<close> is the line cursor.\<close>

function parseTasksLoop :: "string \<Rightarrow> string list \<Rightarrow> nat \<Rightarrow> Task list" where
  "parseTasksLoop filePath lines i =
     (if i < length lines then
        (let line = lines ! i
         in if \<not> isTaskLine line then parseTasksLoop filePath lines (i + 1)
            else case extractTaskStatus line of
                   None \<Rightarrow> parseTasksLoop filePath lines (i + 1)
                 | Some status \<Rightarrow>
                     (let priority = extractPriority line;
                          description = extractTaskDescription line status priority;
                          pageRefs = ExtractPageReferences line;
                          task = \<lparr>Status = status, Priority = priority, Description = description,
                                  PageRefs = pageRefs, SourceFile = filePath,
                                  LineNumber = int i + 1, Logbook = []\<rparr>;
                          hasLogbook = (i + 1 < length lines \<and> Contains (lines ! (i + 1)) '':LOGBOOK:'');
                          task = (if hasLogbook then task\<lparr>Logbook := fst (ParseLogbook lines (i + 1))\<rparr>
                                  else task);
                          consumed = (if hasLogbook then snd (ParseLogbook lines (i + 1)) else 0)
                      in task # parseTasksLoop filePath lines (i + consumed + 1)))
      else [])"
  by pat_completeness auto
termination
  by (relation "measure (\<lambda>(filePath, lines, i). length lines - i)") auto

declare parseTasksLoop.simps [simp del]

definition ParseTasks :: "string \<Rightarrow> string \<Rightarrow> Task list" where
  "ParseTasks content filePath = parseTasksLoop filePath (Split content [CHR 0x0A]) 0"

section \<open>Link graph (internal/indexer/graph_indexer.go)\<close>

text \<open>
  Strings are byte strings, as Go's are. Go's \<open>int\<close> counters (reference counts, line
  numbers) are modelled as \<open>int\<close>: they only ever count elements of slices held in
  memory, so the 64-bit bound is out of reach.
\<close>

record GraphNode =
  PageName :: string
  FilePath :: string
  OutboundRefs :: "string list"
  InboundRefs :: "string list"
  ReferenceCount :: int

text \<open>
  \<open>ReferenceGraph.Nodes\<close> is a Go map from page name to a node pointer. Every key owns
  its own node, so the map is modelled as a partial function to node values and an update
  through the pointer as an update of the map. \<open>GeneratedAt\<close> (the wall clock) is left out.
\<close>

record ReferenceGraph =
  Nodes :: "string \<rightharpoonup> GraphNode"
  HubPages :: "string list"

fun contains :: "string list \<Rightarrow> string \<Rightarrow> bool" where
  "contains [] v = False"
| "contains (item # rest) v = (if item = v then True else contains rest v)"

text \<open>The backwards scan \<open>for i := len(filePath) - 1; i >= 0; i--\<close>; the second argument
  is \<open>i + 1\<close>.\<close>

fun findLastSlash :: "string \<Rightarrow> nat \<Rightarrow> int" where
  "findLastSlash filePath 0 = - 1"
| "findLastSlash filePath (Suc i) =
     (if filePath ! i = CHR ''/'' \<or> filePath ! i = CHR 0x5C then int i
      else findLastSlash filePath i)"

definition extractPageNameFromPath :: "string \<Rightarrow> string" where
  "extractPageNameFromPath filePath =
     (let lastSlash = findLastSlash filePath (length filePath);
          basename = drop (nat (lastSlash + 1)) filePath
      in if length basename > 3 \<and> drop (length basename - 3) basename = ''.md''
         then take (length basename - 3) basename
         else basename)"

fun seedNodes :: "(string \<rightharpoonup> GraphNode) \<Rightarrow> File list \<Rightarrow> (string \<rightharpoonup> GraphNode)" where
  "seedNodes nodes [] = nodes"
| "seedNodes nodes (file # files) =
     (let pageName = extractPageNameFromPath (Path file)
      in seedNodes
           (nodes(pageName \<mapsto>
              \<lparr>PageName = pageName, FilePath = Path file, OutboundRefs = [],
               InboundRefs = [], ReferenceCount = 0\<rparr>))
           files)"

text \<open>The body of the loop over the link records, in its three steps: the outbound
  entry of the source node, the phantom node for a missing target, the inbound entry and
  the count of the target node.\<close>

definition addOutbound :: "(string \<rightharpoonup> GraphNode) \<Rightarrow> PageReference \<Rightarrow> (string \<rightharpoonup> GraphNode)" where
  "addOutbound nodes ref =
     (case nodes (SourcePage ref) of
        Some node \<Rightarrow>
          if \<not> contains (OutboundRefs node) (TargetPage ref)
          then nodes(SourcePage ref \<mapsto>
                 node\<lparr>OutboundRefs := OutboundRefs node @ [TargetPage ref]\<rparr>)
          else nodes
      | None \<Rightarrow> nodes)"

definition ensureTarget :: "(string \<rightharpoonup> GraphNode) \<Rightarrow> PageReference \<Rightarrow> (string \<rightharpoonup> GraphNode)" where
  "ensureTarget nodes ref =
     (case nodes (TargetPage ref) of
        None \<Rightarrow>
          nodes(TargetPage ref \<mapsto>
            \<lparr>PageName = TargetPage ref, FilePath = [], OutboundRefs = [],
             InboundRefs = [], ReferenceCount = 0\<rparr>)
      | Some node \<Rightarrow> nodes)"

definition addInbound :: "(string \<rightharpoonup> GraphNode) \<Rightarrow> PageReference \<Rightarrow> (string \<rightharpoonup> GraphNode)" where
  "addInbound nodes ref =
     (case nodes (TargetPage ref) of
        None \<Rightarrow> nodes
      | Some targetNode \<Rightarrow>
          if \<not> contains (InboundRefs targetNode) (SourcePage ref)
          then nodes(TargetPage ref \<mapsto>
                 targetNode\<lparr>InboundRefs := InboundRefs targetNode @ [SourcePage ref],
                            ReferenceCount := ReferenceCount targetNode + 1\<rparr>)
          else nodes)"

definition addReference :: "(string \<rightharpoonup> GraphNode) \<Rightarrow> PageReference \<Rightarrow> (string \<rightharpoonup> GraphNode)" where
  "addReference nodes ref = addInbound (ensureTarget (addOutbound nodes ref) ref) ref"

fun addReferences :: "(string \<rightharpoonup> GraphNode) \<Rightarrow> PageReference list \<Rightarrow> (string \<rightharpoonup> GraphNode)" where
  "addReferences nodes [] = nodes"
| "addReferences nodes (ref # refs) = addReferences (addReference nodes ref) refs"

text \<open>
  \<open>sort.Slice\<close> is not stable, and the slices sorted here are filled by ranging over a
  map, in an order the runtime picks. The model makes that order an argument (the list
  of keys as the \<open>range\<close> statement yields them) and sorts by insertion. Every slice
  that is sorted by the comparison and a permutation of the input is the insertion sort of some
  order of the input, so a statement proved for every order covers every outcome of
  the Go code.
\<close>

fun insertLess :: "('a \<Rightarrow> 'a \<Rightarrow> bool) \<Rightarrow> 'a \<Rightarrow> 'a list \<Rightarrow> 'a list" where
  "insertLess lt x [] = [x]"
| "insertLess lt x (y # ys) = (if lt x y then x # y # ys else y # insertLess lt x ys)"

fun sortSlice :: "('a \<Rightarrow> 'a \<Rightarrow> bool) \<Rightarrow> 'a list \<Rightarrow> 'a list" where
  "sortSlice lt [] = []"
| "sortSlice lt (x # xs) = insertLess lt x (sortSlice lt xs)"

text \<open>The loop \<open>for pageName, node := range nodes\<close> of \<open>findHubPages\<close>, over the keys
  in iteration order.\<close>

fun hubCounts :: "(string \<rightharpoonup> GraphNode) \<Rightarrow> string list \<Rightarrow> (string \<times> int) list" where
  "hubCounts nodes [] = []"
| "hubCounts nodes (pageName # rest) =
     (case nodes pageName of
        None \<Rightarrow> hubCounts nodes rest
      | Some node \<Rightarrow>
          if ReferenceCount node > 0
          then (pageName, ReferenceCount node) # hubCounts nodes rest
          else hubCounts nodes rest)"

definition findHubPages :: "string list \<Rightarrow> (string \<rightharpoonup> GraphNode) \<Rightarrow> nat \<Rightarrow> string list" where
  "findHubPages order nodes topN =
     (let counts = sortSlice (\<lambda>a b. snd a > snd b) (hubCounts nodes order);
          limit = (if length counts < topN then length counts else topN)
      in map fst (take limit counts))"

definition BuildReferenceGraph :: "string list \<Rightarrow> PageReference list \<Rightarrow> File list \<Rightarrow> ReferenceGraph" where
  "BuildReferenceGraph order refs files =
     (let nodes = addReferences (seedNodes Map.empty files) refs
      in \<lparr>Nodes = nodes, HubPages = findHubPages order nodes 10\<rparr>)"

section \<open>Missing pages (internal/indexer/missing_pages_indexer.go)\<close>

record MissingPage =
  Name :: string
  ReferenceCount :: int
  PageType :: string
  ReferencedFrom :: "string list"

record MissingPagesIndex =
  MissingPages :: "MissingPage list"
  Threshold :: int

text \<open>The loop that collects the distinct inbound names; \<open>seen\<close> is the Go map
  \<open>map[string]bool\<close>, whose missing keys read as \<open>false\<close>.\<close>

fun uniqueSources :: "(string \<Rightarrow> bool) \<Rightarrow> string list \<Rightarrow> string list" where
  "uniqueSources seen [] = []"
| "uniqueSources seen (sourcePage # rest) =
     (if \<not> seen sourcePage then sourcePage # uniqueSources (seen(sourcePage := True)) rest
      else uniqueSources seen rest)"

fun looksLikeWords :: "string list \<Rightarrow> bool" where
  "looksLikeWords [] = True"
| "looksLikeWords (word # rest) =
     (if length word = 0 then False
      else if (of_char (word ! 0) :: nat) < of_char CHR ''A'' \<or>
              (of_char (word ! 0) :: nat) > of_char CHR ''Z'' then False
      else looksLikeWords rest)"

definition looksLikeName :: "string \<Rightarrow> bool" where
  "looksLikeName s =
     (let words = Fields s
      in if length words < 2 \<or> length words > 4 then False else looksLikeWords words)"

fun containsAny :: "string \<Rightarrow> string list \<Rightarrow> bool" where
  "containsAny pageName [] = False"
| "containsAny pageName (keyword # rest) =
     (if Contains pageName keyword then True else containsAny pageName rest)"

definition dateKeywords :: "string list" where
  "dateKeywords = [''Jan'', ''Feb'', ''Mar'', ''Apr'', ''May'', ''Jun'', ''Jul'', ''Aug'',
     ''Sep'', ''Oct'', ''Nov'', ''Dec'', ''th,'', ''st,'', ''nd,'', ''rd,'']"

definition projectKeywords :: "string list" where
  "projectKeywords = [''Sprint'', ''Project'', ''Phase'', ''Release'', ''Milestone'']"

definition techKeywords :: "string list" where
  "techKeywords = [''API'', ''Service'', ''Architecture'', ''System'', ''Design'',
     ''Framework'', ''Database'', ''Server'', ''Team'', ''Stack'', ''Platform'']"

definition classifyPageType :: "string \<Rightarrow> string" where
  "classifyPageType pageName =
     (if Contains pageName '' - '' then
        (let parts = Split pageName '' - ''
         in if length parts = 2 \<and> looksLikeName (parts ! 0) then ''person'' else ''concept'')
      else if containsAny pageName dateKeywords then ''date''
      else if containsAny pageName projectKeywords then ''project''
      else if containsAny pageName techKeywords then ''concept''
      else (let words = Fields pageName
            in if length words \<ge> 2 \<and> length words \<le> 3 \<and> looksLikeName pageName
               then ''person'' else ''concept''))"

text \<open>The loop \<open>for pageName, node := range graph.Nodes\<close> of \<open>BuildMissingPagesIndex\<close>,
  over the keys in iteration order.\<close>

fun collectMissing :: "(string \<rightharpoonup> GraphNode) \<Rightarrow> int \<Rightarrow> string list \<Rightarrow> MissingPage list" where
  "collectMissing nodes threshold [] = []"
| "collectMissing nodes threshold (pageName # rest) =
     (case nodes pageName of
        None \<Rightarrow> collectMissing nodes threshold rest
      | Some node \<Rightarrow>
          if FilePath node \<noteq> [] then collectMissing nodes threshold rest
          else if GraphNode.ReferenceCount node < threshold then collectMissing nodes threshold rest
          else
            (let referencedFrom = uniqueSources (\<lambda>k. False) (InboundRefs node);
                 referencedFrom =
                   (if length referencedFrom > 10 then take 10 referencedFrom else referencedFrom)
             in \<lparr>Name = pageName, ReferenceCount = GraphNode.ReferenceCount node,
                 PageType = classifyPageType pageName, ReferencedFrom = referencedFrom\<rparr>
                # collectMissing nodes threshold rest))"

definition BuildMissingPagesIndex :: "string list \<Rightarrow> ReferenceGraph \<Rightarrow> int \<Rightarrow> MissingPagesIndex" where
  "BuildMissingPagesIndex order graph threshold =
     \<lparr>MissingPages =
        sortSlice (\<lambda>a b. ReferenceCount a > ReferenceCount b)
          (collectMissing (Nodes graph) threshold order),
      Threshold = threshold\<rparr>"

section \<open>Task index (internal/indexer/task_indexer.go)\<close>

text \<open>
  A \<open>float64\<close> is an IEEE 754 binary64 number: a finite value \<open>m * 2 ^ e\<close> with
  \<open>\<bar>m\<bar> < 2 ^ 53\<close> and \<open>- 1074 \<le> e \<le> 971\<close>, an infinity, or a NaN. The finite values are
  modelled as the rational numbers they are; conversion, division and multiplication
  round the exact result to the nearest finite value, ties to the even significand, and
  overflow to an infinity. The sign of a zero is not kept (no value of the program is
  negative).
\<close>

datatype float64 = Finite rat | Infinity bool | NaN

definition pow2 :: "int \<Rightarrow> rat" where
  "pow2 e = (if e \<ge> 0 then 2 ^ nat e else 1 / 2 ^ nat (- e))"

function bitLength :: "int \<Rightarrow> int" where
  "bitLength n = (if n \<le> 0 then 0 else 1 + bitLength (n div 2))"
  by pat_completeness auto
termination
  by (relation "measure nat") auto

declare bitLength.simps [simp del]

text \<open>The exponent of the leading binary digit of a positive rational number.\<close>

definition floorLog2 :: "rat \<Rightarrow> int" where
  "floorLog2 q =
     (let (a, b) = quotient_of q;
          k = bitLength a - bitLength b
      in if pow2 k \<le> q then k else k - 1)"

definition roundHalfEven :: "rat \<Rightarrow> int" where
  "roundHalfEven q =
     (let f = \<lfloor>q\<rfloor>;
          r = q - of_int f
      in if r < 1 / 2 then f else if r > 1 / 2 then f + 1 else if even f then f else f + 1)"

definition roundFloat :: "rat \<Rightarrow> float64" where
  "roundFloat q =
     (if q = 0 then Finite 0
      else (let a = \<bar>q\<bar>;
                e = max (floorLog2 a - 52) (- 1074);
                v = of_int (roundHalfEven (a / pow2 e)) * pow2 e
            in if v \<ge> pow2 1024 then Infinity (q < 0)
               else Finite (if q < 0 then - v else v)))"

text \<open>The conversion \<open>float64(n)\<close> of an integer, and the operators \<open>/\<close> and \<open>*\<close>.\<close>

definition fromInt :: "int \<Rightarrow> float64" where
  "fromInt n = roundFloat (of_int n)"

fun fdiv :: "float64 \<Rightarrow> float64 \<Rightarrow> float64" where
  "fdiv (Finite x) (Finite y) =
     (if y = 0 then (if x = 0 then NaN else Infinity (x < 0)) else roundFloat (x / y))"
| "fdiv (Finite x) (Infinity n) = Finite 0"
| "fdiv (Infinity n) (Finite y) = Infinity (n \<noteq> (y < 0))"
| "fdiv (Infinity n) (Infinity n') = NaN"
| "fdiv NaN y = NaN"
| "fdiv x NaN = NaN"

fun fmul :: "float64 \<Rightarrow> float64 \<Rightarrow> float64" where
  "fmul (Finite x) (Finite y) = roundFloat (x * y)"
| "fmul (Finite x) (Infinity n) = (if x = 0 then NaN else Infinity (n \<noteq> (x < 0)))"
| "fmul (Infinity n) (Finite y) = (if y = 0 then NaN else Infinity (n \<noteq> (y < 0)))"
| "fmul (Infinity n) (Infinity n') = Infinity (n \<noteq> n')"
| "fmul NaN y = NaN"
| "fmul x NaN = NaN"

text \<open>
  A Go map read at a missing key gives the zero value of its element type.
  \<open>GeneratedAt\<close> and \<open>Recent\<close>, which depend on the wall clock, are left out of the task
  index.
\<close>

definition lookupList :: "('k \<rightharpoonup> 'v list) \<Rightarrow> 'k \<Rightarrow> 'v list" where
  "lookupList m k = (case m k of None \<Rightarrow> [] | Some xs \<Rightarrow> xs)"

definition lookupInt :: "('k \<rightharpoonup> int) \<Rightarrow> 'k \<Rightarrow> int" where
  "lookupInt m k = (case m k of None \<Rightarrow> 0 | Some n \<Rightarrow> n)"

record TaskStatistics =
  CompletionRate :: float64
  PriorityBreakdown :: "Priority \<rightharpoonup> int"
  StatusBreakdown :: "TaskStatus \<rightharpoonup> int"
  WithTimeTracking :: int
  TotalTimeLogged :: Duration
  TrackingAdoption :: float64

record TaskIndex =
  TotalTasks :: int
  ByStatus :: "TaskStatus \<rightharpoonup> Task list"
  ByPriority :: "Priority \<rightharpoonup> Task list"
  ByProject :: "string \<rightharpoonup> Task list"
  Statistics :: TaskStatistics

definition emptyTaskIndex :: "Task list \<Rightarrow> TaskIndex" where
  "emptyTaskIndex tasks =
     \<lparr>TotalTasks = int (length tasks),
      ByStatus = [StatusNOW \<mapsto> [], StatusLATER \<mapsto> [], StatusTODO \<mapsto> [],
                  StatusDOING \<mapsto> [], StatusDONE \<mapsto> []],
      ByPriority = [PriorityHigh \<mapsto> [], PriorityMedium \<mapsto> [], PriorityLow \<mapsto> [],
                    PriorityNone \<mapsto> []],
      ByProject = Map.empty,
      Statistics =
        \<lparr>CompletionRate = Finite 0, PriorityBreakdown = Map.empty, StatusBreakdown = Map.empty,
         WithTimeTracking = 0, TotalTimeLogged = 0, TrackingAdoption = Finite 0\<rparr>\<rparr>"

text \<open>The body of the loop over the tasks.\<close>

definition indexTask :: "TaskIndex \<Rightarrow> Task \<Rightarrow> TaskIndex" where
  "indexTask index task =
     (let stats = Statistics index;
          byStatus = (ByStatus index)(Status task \<mapsto> lookupList (ByStatus index) (Status task) @ [task]);
          stats = stats\<lparr>StatusBreakdown :=
                    (StatusBreakdown stats)(Status task \<mapsto> lookupInt (StatusBreakdown stats) (Status task) + 1)\<rparr>;
          byPriority = (ByPriority index)(Priority task \<mapsto> lookupList (ByPriority index) (Priority task) @ [task]);
          stats = stats\<lparr>PriorityBreakdown :=
                    (PriorityBreakdown stats)(Priority task \<mapsto> lookupInt (PriorityBreakdown stats) (Priority task) + 1)\<rparr>;
          byProject =
            (if length (PageRefs task) > 0
             then (let project = PageRefs task ! 0
                   in (ByProject index)(project \<mapsto> lookupList (ByProject index) project @ [task]))
             else ByProject index);
          stats =
            (if length (Logbook task) > 0
             then stats\<lparr>WithTimeTracking := WithTimeTracking stats + 1,
                        TotalTimeLogged := TotalTimeLogged stats + TotalDuration task\<rparr>
             else stats)
      in index\<lparr>ByStatus := byStatus, ByPriority := byPriority, ByProject := byProject,
               Statistics := stats\<rparr>)"

fun indexTasks :: "TaskIndex \<Rightarrow> Task list \<Rightarrow> TaskIndex" where
  "indexTasks index [] = index"
| "indexTasks index (task # rest) = indexTasks (indexTask index task) rest"

definition BuildTaskIndex :: "Task list \<Rightarrow> TaskIndex" where
  "BuildTaskIndex tasks =
     (let index = indexTasks (emptyTaskIndex tasks) tasks
      in if length tasks > 0
         then index\<lparr>Statistics := (Statistics index)
                \<lparr>CompletionRate :=
                   fmul (fdiv (fromInt (lookupInt (StatusBreakdown (Statistics index)) StatusDONE))
                              (fromInt (int (length tasks))))
                        (Finite 100),
                 TrackingAdoption :=
                   fmul (fdiv (fromInt (WithTimeTracking (Statistics index)))
                              (fromInt (int (length tasks))))
                        (Finite 100)\<rparr>\<rparr>
         else index)"

section \<open>Week start (internal/indexer/time_tracking_indexer.go)\<close>


section \<open>Timeline (internal/indexer/timeline_indexer.go)\<close>

text \<open>\<open>filepath.Base\<close> on a system whose path separator is the slash: trailing slashes
  are dropped and the last element is returned; an empty path gives a period, a path
  of slashes only gives a slash.\<close>

definition Base :: "string \<Rightarrow> string" where
  "Base path =
     (if path = [] then ''.''
      else (let path = rev (dropWhile (\<lambda>c. c = CHR ''/'') (rev path));
                path = rev (takeWhile (\<lambda>c. c \<noteq> CHR ''/'') (rev path))
            in if path = [] then ''/'' else path))"

text \<open>Decimal digits, and \<open>appendInt\<close> of package \<open>time\<close>: a number padded with zeros
  to a width, after a minus sign when it is negative.\<close>

function decimal :: "nat \<Rightarrow> string" where
  "decimal n = (if n < 10 then [char_of (48 + n)] else decimal (n div 10) @ [char_of (48 + n mod 10)])"
  by pat_completeness auto
termination
  by (relation "measure id") auto

declare decimal.simps [simp del]

definition appendInt :: "int \<Rightarrow> nat \<Rightarrow> string" where
  "appendInt x width =
     (let ds = decimal (nat \<bar>x\<bar>)
      in (if x < 0 then ''-'' else []) @ replicate (width - length ds) CHR ''0'' @ ds)"

text \<open>\<open>t.Format("2006-01-02")\<close>.\<close>

definition formatDate :: "Time \<Rightarrow> string" where
  "formatDate t = appendInt (Year t) 4 @ ''-'' @ appendInt (Month t) 2 @ ''-'' @ appendInt (Day t) 2"

definition extractDateFromJournalPath :: "string \<Rightarrow> Time option" where
  "extractDateFromJournalPath path =
     (let filename = Base path;
          filename = TrimSuffix filename ''.md'';
          underscore =
            (if Contains filename ''_'' then parseDateLayout CHR ''_'' filename else None)
      in case underscore of
           Some t \<Rightarrow> Some t
         | None \<Rightarrow> if Contains filename ''-'' then parseDateLayout CHR ''-'' filename else None)"

record TimelineDay =
  Date :: Time
  JournalPath :: string
  TasksCreated :: "Task list"
  TimeLogged :: Duration
  KeyActivity :: "string list"

record TimelineIndex =
  Entries :: "TimelineDay list"

text \<open>The loop that creates one day for each journal file with a date in its name,
  unless the day of that date is there already.\<close>

fun seedDays :: "(string \<rightharpoonup> TimelineDay) \<Rightarrow> File list \<Rightarrow> (string \<rightharpoonup> TimelineDay)" where
  "seedDays dayMap [] = dayMap"
| "seedDays dayMap (file # files) =
     (if Type file = FileTypeJournal then
        (case extractDateFromJournalPath (Path file) of
           None \<Rightarrow> seedDays dayMap files
         | Some date \<Rightarrow>
             (let dateKey = formatDate date
              in case dayMap dateKey of
                   None \<Rightarrow>
                     seedDays
                       (dayMap(dateKey \<mapsto>
                          \<lparr>Date = date, JournalPath = Path file, TasksCreated = [],
                           TimeLogged = 0, KeyActivity = []\<rparr>))
                       files
                 | Some day \<Rightarrow> seedDays dayMap files))
      else seedDays dayMap files)"

text \<open>The loop that adds each task to the day of its source file.\<close>

fun addTasks :: "(string \<rightharpoonup> TimelineDay) \<Rightarrow> Task list \<Rightarrow> (string \<rightharpoonup> TimelineDay)" where
  "addTasks dayMap [] = dayMap"
| "addTasks dayMap (task # tasks) =
     (case extractDateFromJournalPath (SourceFile task) of
        None \<Rightarrow> addTasks dayMap tasks
      | Some date \<Rightarrow>
          (let dateKey = formatDate date
           in case dayMap dateKey of
                Some day \<Rightarrow>
                  addTasks
                    (dayMap(dateKey \<mapsto>
                       day\<lparr>TasksCreated := TasksCreated day @ [task],
                           TimeLogged := TimeLogged day + TotalDuration task\<rparr>))
                    tasks
              | None \<Rightarrow> addTasks dayMap tasks))"

definition formatTaskCount :: "int \<Rightarrow> TaskStatus \<Rightarrow> string" where
  "formatTaskCount count status =
     (if count = 1 then ''1 '' @ status @ '' task''
      else appendInt count 0 @ '' '' @ status @ '' tasks'')"

fun countStatuses :: "(TaskStatus \<rightharpoonup> int) \<Rightarrow> Task list \<Rightarrow> (TaskStatus \<rightharpoonup> int)" where
  "countStatuses statusCounts [] = statusCounts"
| "countStatuses statusCounts (task # tasks) =
     countStatuses (statusCounts(Status task \<mapsto> lookupInt statusCounts (Status task) + 1)) tasks"

definition statusSummary :: "(TaskStatus \<rightharpoonup> int) \<Rightarrow> TaskStatus \<Rightarrow> string list" where
  "statusSummary statusCounts status =
     (if lookupInt statusCounts status > 0
      then [formatTaskCount (lookupInt statusCounts status) status] else [])"

text \<open>The highlight of a high-priority task: the description, cut to 57 bytes and three
  periods when it is longer than 60 bytes, after a fire sign (U+1F525) and a space.\<close>

definition highlight :: "Task \<Rightarrow> string" where
  "highlight task =
     (let desc = Description task;
          desc = (if length desc > 60 then take 57 desc @ ''...'' else desc)
      in [CHR 0xF0, CHR 0x9F, CHR 0x94, CHR 0xA5, CHR '' ''] @ desc)"

definition generateKeyActivity :: "TimelineDay \<Rightarrow> string list" where
  "generateKeyActivity day =
     (if length (TasksCreated day) = 0 then []
      else
        (let statusCounts = countStatuses Map.empty (TasksCreated day);
             highPriorityTasks = filter (\<lambda>task. Priority task = PriorityHigh) (TasksCreated day)
         in statusSummary statusCounts StatusNOW @ statusSummary statusCounts StatusDOING @
            statusSummary statusCounts StatusTODO @ statusSummary statusCounts StatusLATER @
            statusSummary statusCounts StatusDONE @
            map highlight (take 2 highPriorityTasks)))"

text \<open>The map of days before it is turned into a slice, and the loop that ranges over
  it, over the keys in iteration order. \<open>GeneratedAt\<close> is left out.\<close>

definition buildDayMap :: "Task list \<Rightarrow> File list \<Rightarrow> (string \<rightharpoonup> TimelineDay)" where
  "buildDayMap tasks files =
     (let dayMap = addTasks (seedDays Map.empty files) tasks
      in (\<lambda>k. case dayMap k of
                 None \<Rightarrow> None
               | Some day \<Rightarrow> Some (day\<lparr>KeyActivity := generateKeyActivity day\<rparr>)))"

fun collectDays :: "(string \<rightharpoonup> TimelineDay) \<Rightarrow> string list \<Rightarrow> TimelineDay list" where
  "collectDays dayMap [] = []"
| "collectDays dayMap (k # ks) =
     (case dayMap k of None \<Rightarrow> collectDays dayMap ks | Some day \<Rightarrow> day # collectDays dayMap ks)"

definition BuildTimelineIndex :: "string list \<Rightarrow> Task list \<Rightarrow> File list \<Rightarrow> TimelineIndex" where
  "BuildTimelineIndex order tasks files =
     \<lparr>Entries =
        sortSlice (\<lambda>a b. After (Date a) (Date b)) (collectDays (buildDayMap tasks files) order)\<rparr>"

section \<open>Definitions used to state the properties\<close>

text \<open>The invariant of the node map.\<close>

definition nodesInv :: "(string \<rightharpoonup> GraphNode) \<Rightarrow> bool" where
  "nodesInv nodes \<longleftrightarrow>
     (\<forall>name node. nodes name = Some node \<longrightarrow>
        GraphNode.ReferenceCount node = int (length (InboundRefs node)) \<and>
        distinct (InboundRefs node) \<and> distinct (OutboundRefs node))"

text \<open>The inbound-reference count of a page name in a node map.\<close>

definition inboundCount :: "(string \<rightharpoonup> GraphNode) \<Rightarrow> string \<Rightarrow> int" where
  "inboundCount nodes pageName =
     (case nodes pageName of None \<Rightarrow> 0 | Some node \<Rightarrow> GraphNode.ReferenceCount node)"

text \<open>A page file, for the examples.\<close>

definition pageFile :: "string \<Rightarrow> File" where
  "pageFile name =
     \<lparr>Path = ''pages/'' @ name @ ''.md'', AbsolutePath = ''/repo/pages/'' @ name @ ''.md'',
      Type = FileTypePage, ModTime = zeroTime\<rparr>"

text \<open>The hub-ranking scenario: A links to B and C, B links to C twice.\<close>

definition hubRefs :: "PageReference list" where
  "hubRefs = [link ''A'' ''B'', link ''A'' ''C'', link ''B'' ''C'', link ''B'' ''C'']"

definition hubFiles :: "File list" where
  "hubFiles = [pageFile ''A'', pageFile ''B'']"

text \<open>A list without its repeated elements, the first occurrence of each kept.\<close>

fun dedupFirst :: "'a list \<Rightarrow> 'a list" where
  "dedupFirst [] = []"
| "dedupFirst (x # xs) = x # dedupFirst (filter (\<lambda>y. y \<noteq> x) xs)"

text \<open>The threshold scenario: page P5 is linked from five pages, page P4 from four, and
  neither has a file.\<close>

definition thresholdRefs :: "PageReference list" where
  "thresholdRefs =
     [link ''A'' ''P5'', link ''B'' ''P5'', link ''C'' ''P5'', link ''D'' ''P5'', link ''E'' ''P5'',
      link ''A'' ''P4'', link ''B'' ''P4'', link ''C'' ''P4'', link ''D'' ''P4'']"

definition thresholdGraph :: ReferenceGraph where
  "thresholdGraph = BuildReferenceGraph [''P4'', ''P5''] thresholdRefs []"

text \<open>The shape of a name: between \<open>lo\<close> and \<open>hi\<close> words, each starting with one of the
  capital letters A to Z.\<close>

definition capitalizedWords :: "nat \<Rightarrow> nat \<Rightarrow> string \<Rightarrow> bool" where
  "capitalizedWords lo hi s \<longleftrightarrow>
     lo \<le> length (Fields s) \<and> length (Fields s) \<le> hi \<and>
     (\<forall>w \<in> set (Fields s). w \<noteq> [] \<and> (of_char (hd w) :: nat) \<in> {of_char CHR ''A'' .. of_char CHR ''Z''})"

text \<open>The parts of a string before and after its first occurrence of a separator.\<close>

definition beforeFirst :: "string \<Rightarrow> string \<Rightarrow> string" where
  "beforeFirst s sep = take (nat (Index s sep)) s"

definition afterFirst :: "string \<Rightarrow> string \<Rightarrow> string" where
  "afterFirst s sep = drop (nat (Index s sep) + length sep) s"

text \<open>A task with a status and nothing else, for the examples.\<close>

definition plainTask :: "TaskStatus \<Rightarrow> Task" where
  "plainTask st =
     \<lparr>Status = st, Priority = PriorityNone, Description = ''Task'', PageRefs = [],
      SourceFile = ''pages/Tasks.md'', LineNumber = 1, Logbook = []\<rparr>"

text \<open>The number of tasks with a given status.\<close>

definition countStatus :: "TaskStatus \<Rightarrow> Task list \<Rightarrow> nat" where
  "countStatus st tasks = length (filter (\<lambda>t. Status t = st) tasks)"



text \<open>A clock line whose duration text is not of the form \<open>HH:MM:SS\<close>, and a log block
  with a clock line whose first time stamp has no seconds.\<close>

definition badDurationLine :: string where
  "badDurationLine = ''CLOCK: [2025-04-06 Sun 10:00:00]--[2025-04-06 Sun 12:00:00] => abc''"

definition newline :: string where
  "newline = [CHR 0x0A]"

definition badStampNote :: string where
  "badStampNote =
     ''- NOW [[Project]] - Task'' @ newline @
     ''  :LOGBOOK:'' @ newline @
     ''  CLOCK: [2025-04-06 Sun 10:00]--[2025-04-06 Sun 12:00:00] =>  02:00:00'' @ newline @
     ''  CLOCK: [2025-04-07 Mon 14:00:00]--[2025-04-07 Mon 15:30:00] =>  01:30:00'' @ newline @
     ''  :END:''"

section \<open>Definitions used to state the properties of the parser\<close>

text \<open>The bytes that white space is made of: the six ASCII characters, and the bytes
  of the UTF-8 encodings of the others, all of them above 127.\<close>

definition spaceByte :: "char \<Rightarrow> bool" where
  "spaceByte c \<longleftrightarrow> asciiSpace c \<or> (of_char c :: nat) \<ge> 128"

text \<open>A line that begins with a bullet marker after its leading white space is trimmed.\<close>

definition bulletLine :: "string \<Rightarrow> bool" where
  "bulletLine line =
     (let trimmed = trimLeftSpace line
      in HasPrefix trimmed ''- '' \<or> HasPrefix trimmed ''* '' \<or> HasPrefix trimmed ''+ '')"

text \<open>The first of the five status tokens, in the order NOW, LATER, TODO, DOING, DONE,
  that occurs in a line followed by a space.\<close>

definition firstStatus :: "string \<Rightarrow> TaskStatus option" where
  "firstStatus line =
     (if Contains line ''NOW '' then Some ''NOW''
      else if Contains line ''LATER '' then Some ''LATER''
      else if Contains line ''TODO '' then Some ''TODO''
      else if Contains line ''DOING '' then Some ''DOING''
      else if Contains line ''DONE '' then Some ''DONE''
      else None)"

definition producesTask :: "string \<Rightarrow> bool" where
  "producesTask line \<longleftrightarrow> bulletLine line \<and> firstStatus line \<noteq> None"

text \<open>The number of lines of the log block whose opening line is line \<open>j\<close>: the opening
  line, the lines after it up to the first whose trimmed text contains the close
  marker, and that line if there is one.\<close>

definition logBlockLines :: "string list \<Rightarrow> nat \<Rightarrow> nat" where
  "logBlockLines lines j =
     (let rest = drop (j + 1) lines;
          body = takeWhile (\<lambda>l. \<not> Contains (TrimSpace l) '':END:'') rest
      in 1 + length body + (if length body < length rest then 1 else 0))"

text \<open>The lines that the line cursor visits from line \<open>i\<close> on: after a line that
  produces a task and is followed by a line with the open marker, the cursor skips
  the log block.\<close>

function cursorLines :: "string list \<Rightarrow> nat \<Rightarrow> nat list" where
  "cursorLines lines i =
     (if i < length lines then
        i # cursorLines lines
              (i + (if producesTask (lines ! i) \<and> i + 1 < length lines \<and>
                       Contains (lines ! (i + 1)) '':LOGBOOK:''
                    then logBlockLines lines (i + 1) else 0) + 1)
      else [])"
  by pat_completeness auto
termination
  by (relation "measure (\<lambda>(lines, i). length lines - i)") auto

declare cursorLines.simps [simp del]

text \<open>A note whose third line looks like a task and lies inside the log block of the
  task of the first line, and a note without log blocks.\<close>

definition nestedNote :: string where
  "nestedNote =
     ''- NOW first task'' @ newline @
     ''  :LOGBOOK:'' @ newline @
     ''- TODO second task'' @ newline @
     ''  :END:''"

definition plainNote :: string where
  "plainNote =
     ''# Test Page'' @ newline @
     ''- NOW [[Project A]] - Implement feature X'' @ newline @
     ''  * DONE TODO nested'' @ newline @
     ''- Fix bug'' @ newline @
     ''TODO not a bullet''"

section \<open>Insertion sort by a comparison\<close>

lemma set_insertLess: "set (insertLess lt x xs) = insert x (set xs)"
  by (induction xs) auto

lemma set_sortSlice: "set (sortSlice lt xs) = set xs"
  by (induction xs) (auto simp: set_insertLess)

lemma length_insertLess: "length (insertLess lt x xs) = Suc (length xs)"
  by (induction xs) auto

lemma length_sortSlice: "length (sortSlice lt xs) = length xs"
  by (induction xs) (auto simp: length_insertLess)

lemma distinct_insertLess: "distinct (map f (insertLess lt x xs)) \<longleftrightarrow> distinct (map f (x # xs))"
  by (induction xs) (auto simp: set_insertLess)

lemma distinct_sortSlice: "distinct (map f (sortSlice lt xs)) \<longleftrightarrow> distinct (map f xs)"
  by (induction xs) (auto simp: distinct_insertLess set_sortSlice)

lemma sorted_insertLess:
  fixes key :: "'a \<Rightarrow> int"
  assumes "\<And>a b. lt a b \<longleftrightarrow> key b < key a"
  shows "sorted_wrt (\<lambda>a b. key b \<le> key a) xs \<Longrightarrow>
         sorted_wrt (\<lambda>a b. key b \<le> key a) (insertLess lt x xs)"
  by (induction xs) (auto simp: set_insertLess assms)

lemma sorted_sortSlice:
  fixes key :: "'a \<Rightarrow> int"
  assumes "\<And>a b. lt a b \<longleftrightarrow> key b < key a"
  shows "sorted_wrt (\<lambda>a b. key b \<le> key a) (sortSlice lt xs)"
  by (induction xs) (auto intro: sorted_insertLess [OF assms])

section \<open>The link graph\<close>

lemma contains_iff: "contains xs v \<longleftrightarrow> v \<in> set xs"
  by (induction xs) auto

lemma nodesInv_upd:
  "nodesInv nodes \<Longrightarrow> GraphNode.ReferenceCount node = int (length (InboundRefs node)) \<Longrightarrow>
   distinct (InboundRefs node) \<Longrightarrow> distinct (OutboundRefs node) \<Longrightarrow>
   nodesInv (nodes(k \<mapsto> node))"
  by (simp add: nodesInv_def)

lemma nodesInv_empty: "nodesInv Map.empty"
  by (simp add: nodesInv_def)

lemma nodesInv_seedNodes: "nodesInv nodes \<Longrightarrow> nodesInv (seedNodes nodes files)"
  by (induction files arbitrary: nodes) (simp_all add: Let_def nodesInv_upd)

lemma nodesInv_addOutbound: "nodesInv nodes \<Longrightarrow> nodesInv (addOutbound nodes ref)"
  by (auto simp: addOutbound_def nodesInv_def contains_iff split: option.splits)

lemma nodesInv_ensureTarget: "nodesInv nodes \<Longrightarrow> nodesInv (ensureTarget nodes ref)"
  by (auto simp: ensureTarget_def nodesInv_def split: option.splits)

lemma nodesInv_addInbound: "nodesInv nodes \<Longrightarrow> nodesInv (addInbound nodes ref)"
  by (auto simp: addInbound_def nodesInv_def contains_iff split: option.splits)

lemma nodesInv_addReference: "nodesInv nodes \<Longrightarrow> nodesInv (addReference nodes ref)"
  by (simp add: addReference_def nodesInv_addOutbound nodesInv_ensureTarget nodesInv_addInbound)

lemma nodesInv_addReferences: "nodesInv nodes \<Longrightarrow> nodesInv (addReferences nodes refs)"
  by (induction refs arbitrary: nodes) (simp_all add: nodesInv_addReference)

text \<open>
  C4. In the graph that \<open>BuildReferenceGraph\<close> returns, every node's inbound count is the
  length of its inbound list, and neither its inbound nor its outbound list holds a name
  twice: however many link records there are for one (source, target) pair, the pair
  has at most one entry in either list and is counted once.
\<close>

theorem BuildReferenceGraph_invariant:
  "Nodes (BuildReferenceGraph order refs files) name = Some node \<Longrightarrow>
     GraphNode.ReferenceCount node = int (length (InboundRefs node)) \<and>
     distinct (InboundRefs node) \<and> distinct (OutboundRefs node)"
proof -
  assume a: "Nodes (BuildReferenceGraph order refs files) name = Some node"
  have "nodesInv (addReferences (seedNodes Map.empty files) refs)"
    by (intro nodesInv_addReferences nodesInv_seedNodes nodesInv_empty)
  with a show ?thesis
    by (simp add: BuildReferenceGraph_def Let_def nodesInv_def)
qed

theorem BuildReferenceGraph_invariant_witness:
  "Nodes (BuildReferenceGraph [''A'', ''B'', ''C''] hubRefs hubFiles) ''C'' =
     Some \<lparr>PageName = ''C'', FilePath = [], OutboundRefs = [],
           InboundRefs = [''A'', ''B''], ReferenceCount = 2\<rparr> \<and>
   (2 :: int) = int (length [''A'', ''B'']) \<and> distinct [''A'', ''B''] \<and> distinct ([] :: string list)"
proof -
  have e: "Nodes (BuildReferenceGraph [''A'', ''B'', ''C''] hubRefs hubFiles) ''C'' =
     Some \<lparr>PageName = ''C'', FilePath = [], OutboundRefs = [],
           InboundRefs = [''A'', ''B''], ReferenceCount = 2\<rparr>"
    by code_simp
  from BuildReferenceGraph_invariant [OF e] e show ?thesis
    by simp
qed

lemma hubCounts_sound:
  "(k, c) \<in> set (hubCounts nodes ks) \<Longrightarrow>
   \<exists>node. nodes k = Some node \<and> GraphNode.ReferenceCount node = c \<and> c > 0"
  by (induction ks) (auto split: option.splits if_splits)

lemma findHubPages_props:
  "length (findHubPages order nodes topN) \<le> topN \<and>
   sorted_wrt (\<lambda>a b. inboundCount nodes b \<le> inboundCount nodes a) (findHubPages order nodes topN) \<and>
   (\<forall>p \<in> set (findHubPages order nodes topN). inboundCount nodes p > 0)"
proof -
  define counts where "counts = sortSlice (\<lambda>a b. snd a > snd b) (hubCounts nodes order)"
  define limit where "limit = (if length counts < topN then length counts else topN)"
  have hub: "findHubPages order nodes topN = map fst (take limit counts)"
    by (simp add: findHubPages_def counts_def limit_def Let_def)
  have snd_eq: "snd e = inboundCount nodes (fst e) \<and> snd e > 0" if "e \<in> set counts" for e
  proof -
    from that have "(fst e, snd e) \<in> set (hubCounts nodes order)"
      by (simp add: counts_def set_sortSlice)
    from hubCounts_sound [OF this] show ?thesis
      by (auto simp: inboundCount_def)
  qed
  have "sorted_wrt (\<lambda>a b. snd b \<le> snd a) counts"
    unfolding counts_def by (rule sorted_sortSlice) auto
  then have "sorted_wrt (\<lambda>a b. snd b \<le> snd a) (take limit counts)"
    by (rule sorted_wrt_take)
  then have "sorted_wrt (\<lambda>a b. inboundCount nodes (fst b) \<le> inboundCount nodes (fst a))
               (take limit counts)"
    by (rule sorted_wrt_mono_rel [rotated]) (auto dest!: in_set_takeD snd_eq)
  then have s: "sorted_wrt (\<lambda>a b. inboundCount nodes b \<le> inboundCount nodes a)
                  (map fst (take limit counts))"
    by (simp add: sorted_wrt_map)
  have p: "\<forall>p \<in> set (map fst (take limit counts)). inboundCount nodes p > 0"
    by (auto dest!: in_set_takeD snd_eq)
  have l: "length (map fst (take limit counts)) \<le> topN"
    by (simp add: limit_def)
  from s p l show ?thesis unfolding hub by blast
qed

text \<open>
  C10. Whatever order the runtime ranges over the node map in, the hub list of a built
  graph has at most 10 names, is in descending order of inbound-reference count, and
  names only pages whose inbound-reference count is greater than zero.
\<close>

theorem hub_pages_ranking:
  "length (HubPages (BuildReferenceGraph order refs files)) \<le> 10 \<and>
   sorted_wrt (\<lambda>a b. inboundCount (Nodes (BuildReferenceGraph order refs files)) b
                     \<le> inboundCount (Nodes (BuildReferenceGraph order refs files)) a)
     (HubPages (BuildReferenceGraph order refs files)) \<and>
   (\<forall>p \<in> set (HubPages (BuildReferenceGraph order refs files)).
      inboundCount (Nodes (BuildReferenceGraph order refs files)) p > 0)"
  using findHubPages_props [of order "addReferences (seedNodes Map.empty files) refs" 10]
  by (simp add: BuildReferenceGraph_def Let_def)

theorem hub_pages_ranking_witness:
  "HubPages (BuildReferenceGraph [''A'', ''B'', ''C''] hubRefs hubFiles) = [''C'', ''B''] \<and>
   inboundCount (Nodes (BuildReferenceGraph [''A'', ''B'', ''C''] hubRefs hubFiles)) ''A'' = 0 \<and>
   length [''C'', ''B''] \<le> (10 :: nat) \<and>
   inboundCount (Nodes (BuildReferenceGraph [''A'', ''B'', ''C''] hubRefs hubFiles)) ''C'' > 0 \<and>
   inboundCount (Nodes (BuildReferenceGraph [''A'', ''B'', ''C''] hubRefs hubFiles)) ''B'' > 0"
proof -
  have e: "HubPages (BuildReferenceGraph [''A'', ''B'', ''C''] hubRefs hubFiles) = [''C'', ''B'']"
    by code_simp
  have z: "inboundCount (Nodes (BuildReferenceGraph [''A'', ''B'', ''C''] hubRefs hubFiles)) ''A'' = 0"
    by code_simp
  from hub_pages_ranking [of "[''A'', ''B'', ''C'']" hubRefs hubFiles] e z show ?thesis
    by simp
qed

section \<open>Missing pages\<close>

lemma names_collectMissing:
  "map Name (collectMissing nodes th ks) =
     filter (\<lambda>k. case nodes k of None \<Rightarrow> False
                 | Some node \<Rightarrow> FilePath node = [] \<and> th \<le> GraphNode.ReferenceCount node) ks"
  by (induction ks) (auto split: option.splits simp: Let_def)

lemma uniqueSources_eq:
  "uniqueSources seen xs = dedupFirst (filter (\<lambda>x. \<not> seen x) xs)"
proof (induction xs arbitrary: seen)
  case Nil
  show ?case by simp
next
  case (Cons x xs)
  have "filter (\<lambda>y. \<not> (seen(x := True)) y) xs = filter (\<lambda>y. y \<noteq> x) (filter (\<lambda>y. \<not> seen y) xs)"
    by (induction xs) auto
  with Cons show ?case by simp
qed

lemma set_dedupFirst: "set (dedupFirst xs) = set xs"
  by (induction xs rule: dedupFirst.induct) auto

lemma distinct_dedupFirst: "distinct (dedupFirst xs)"
  by (induction xs rule: dedupFirst.induct) (auto simp: set_dedupFirst)

lemma dedupFirst_distinct: "distinct xs \<Longrightarrow> dedupFirst xs = xs"
proof (induction xs)
  case Nil
  show ?case by simp
next
  case (Cons x xs)
  then have "filter (\<lambda>y. y \<noteq> x) xs = xs"
    by (auto intro: filter_True)
  with Cons show ?case by simp
qed

lemma collectMissing_sound:
  "p \<in> set (collectMissing nodes th ks) \<Longrightarrow>
   \<exists>node. nodes (Name p) = Some node \<and>
          ReferenceCount p = GraphNode.ReferenceCount node \<and>
          PageType p = classifyPageType (Name p) \<and>
          ReferencedFrom p = take 10 (dedupFirst (InboundRefs node))"
  by (induction ks) (auto split: option.splits if_splits simp: Let_def uniqueSources_eq)

text \<open>
  C5. Let \<open>order\<close> be the order in which the runtime ranges over the node map (each key
  once). \<open>BuildMissingPagesIndex\<close> returns one entry for each node whose file path is
  empty and whose inbound count is at least the threshold, and for no other name; the
  entries are in descending order of inbound count; each carries its node's count, the
  type \<open>classifyPageType\<close> gives its name, and the first 10 names of the node's inbound
  list without repetitions.
\<close>

theorem BuildMissingPagesIndex_correct:
  assumes "distinct order" and "set order = dom (Nodes graph)"
  shows "distinct (map Name (MissingPages (BuildMissingPagesIndex order graph threshold))) \<and>
    set (map Name (MissingPages (BuildMissingPagesIndex order graph threshold))) =
      {k. \<exists>node. Nodes graph k = Some node \<and> FilePath node = [] \<and>
                  threshold \<le> GraphNode.ReferenceCount node} \<and>
    sorted_wrt (\<lambda>a b. ReferenceCount b \<le> ReferenceCount a)
      (MissingPages (BuildMissingPagesIndex order graph threshold)) \<and>
    (\<forall>p \<in> set (MissingPages (BuildMissingPagesIndex order graph threshold)).
       \<exists>node. Nodes graph (Name p) = Some node \<and>
              ReferenceCount p = GraphNode.ReferenceCount node \<and>
              PageType p = classifyPageType (Name p) \<and>
              ReferencedFrom p = take 10 (dedupFirst (InboundRefs node)))"
proof -
  define found where "found = collectMissing (Nodes graph) threshold order"
  define lt where "lt = (\<lambda>(a :: MissingPage) (b :: MissingPage). ReferenceCount a > ReferenceCount b)"
  have mp: "MissingPages (BuildMissingPagesIndex order graph threshold) = sortSlice lt found"
    by (simp add: BuildMissingPagesIndex_def found_def lt_def)
  have names: "map Name found =
      filter (\<lambda>k. case Nodes graph k of None \<Rightarrow> False
                  | Some node \<Rightarrow> FilePath node = [] \<and> threshold \<le> GraphNode.ReferenceCount node) order"
    unfolding found_def by (rule names_collectMissing)
  have d: "distinct (map Name (sortSlice lt found))"
    using assms(1) by (simp add: distinct_sortSlice names)
  have "set (map Name (sortSlice lt found)) = set (map Name found)"
    by (simp add: set_sortSlice)
  also have "\<dots> = {k. \<exists>node. Nodes graph k = Some node \<and> FilePath node = [] \<and>
                  threshold \<le> GraphNode.ReferenceCount node}"
    unfolding names using assms(2) by (auto split: option.splits)
  finally have s: "set (map Name (sortSlice lt found)) =
      {k. \<exists>node. Nodes graph k = Some node \<and> FilePath node = [] \<and>
                  threshold \<le> GraphNode.ReferenceCount node}" .
  have o: "sorted_wrt (\<lambda>a b. ReferenceCount b \<le> ReferenceCount a) (sortSlice lt found)"
    by (rule sorted_sortSlice) (simp add: lt_def)
  have e: "\<forall>p \<in> set (sortSlice lt found).
       \<exists>node. Nodes graph (Name p) = Some node \<and>
              ReferenceCount p = GraphNode.ReferenceCount node \<and>
              PageType p = classifyPageType (Name p) \<and>
              ReferencedFrom p = take 10 (dedupFirst (InboundRefs node))"
    unfolding set_sortSlice found_def by (blast dest: collectMissing_sound)
  from d s o e show ?thesis unfolding mp by blast
qed

theorem BuildMissingPagesIndex_correct_witness:
  "distinct [''P4'', ''P5''] \<and> set [''P4'', ''P5''] = dom (Nodes thresholdGraph) \<and>
   inboundCount (Nodes thresholdGraph) ''P4'' = 4 \<and>
   inboundCount (Nodes thresholdGraph) ''P5'' = 5 \<and>
   MissingPages (BuildMissingPagesIndex [''P4'', ''P5''] thresholdGraph 5) =
     [\<lparr>Name = ''P5'', ReferenceCount = 5, PageType = ''concept'',
       ReferencedFrom = [''A'', ''B'', ''C'', ''D'', ''E'']\<rparr>] \<and>
   set (map Name (MissingPages (BuildMissingPagesIndex [''P4'', ''P5''] thresholdGraph 5))) =
     {k. \<exists>node. Nodes thresholdGraph k = Some node \<and> FilePath node = [] \<and>
                 5 \<le> GraphNode.ReferenceCount node}"
proof -
  have d: "distinct [''P4'', ''P5'']"
    by simp
  have g: "set [''P4'', ''P5''] = dom (Nodes thresholdGraph)"
    by (simp add: thresholdGraph_def BuildReferenceGraph_def thresholdRefs_def link_def Let_def
      addReference_def addOutbound_def ensureTarget_def addInbound_def insert_commute)
  have c4: "inboundCount (Nodes thresholdGraph) ''P4'' = 4"
    by code_simp
  have c5: "inboundCount (Nodes thresholdGraph) ''P5'' = 5"
    by code_simp
  have m: "MissingPages (BuildMissingPagesIndex [''P4'', ''P5''] thresholdGraph 5) =
     [\<lparr>Name = ''P5'', ReferenceCount = 5, PageType = ''concept'',
       ReferencedFrom = [''A'', ''B'', ''C'', ''D'', ''E'']\<rparr>]"
    by code_simp
  from BuildMissingPagesIndex_correct [OF d g, of 5] d g c4 c5 m show ?thesis
    by blast
qed

section \<open>The type of a missing page\<close>

lemma containsAny_iff: "containsAny s ks \<longleftrightarrow> (\<exists>k \<in> set ks. Contains s k)"
  by (induction ks) auto

lemma looksLikeWords_iff:
  "looksLikeWords ws \<longleftrightarrow>
     (\<forall>w \<in> set ws. w \<noteq> [] \<and> (of_char (hd w) :: nat) \<in> {of_char CHR ''A'' .. of_char CHR ''Z''})"
  by (induction ws) (auto simp: hd_conv_nth)

lemma looksLikeName_iff: "looksLikeName s \<longleftrightarrow> capitalizedWords 2 4 s"
  by (auto simp: looksLikeName_def capitalizedWords_def looksLikeWords_iff Let_def)

lemma Split_none: "\<not> Contains t (c # sep) \<Longrightarrow> Split t (c # sep) = [t]"
  by (subst Split.simps) (simp add: Let_def Contains_def)

lemma Split_some:
  "Contains s (c # sep) \<Longrightarrow>
   Split s (c # sep) = beforeFirst s (c # sep) # Split (afterFirst s (c # sep)) (c # sep)"
  by (subst Split.simps) (simp add: Let_def Contains_def beforeFirst_def afterFirst_def)

lemma Split_nonempty: "Split t (c # sep) \<noteq> []"
  by (subst Split.simps) (simp add: Let_def)

lemma Split_length2:
  "length (Split s (c # sep)) = 2 \<longleftrightarrow>
     Contains s (c # sep) \<and> \<not> Contains (afterFirst s (c # sep)) (c # sep)"
proof (cases "Contains s (c # sep)")
  case False
  then show ?thesis by (simp add: Split_none)
next
  case True
  show ?thesis
  proof (cases "Contains (afterFirst s (c # sep)) (c # sep)")
    case False
    with True show ?thesis by (simp add: Split_some Split_none)
  next
    case t: True
    with True show ?thesis by (simp add: Split_some [of s] Split_some [of "afterFirst s (c # sep)"] Split_nonempty)
  qed
qed

lemma Split_first:
  "Contains s (c # sep) \<Longrightarrow> Split s (c # sep) ! 0 = beforeFirst s (c # sep)"
  by (simp add: Split_some)

text \<open>
  C9 (amended). \<open>classifyPageType\<close> applies its rules in this order, the first that matches
  deciding: a name with exactly one \<open>" - "\<close> (none after the first) whose part before it
  has 2 to 4 words, each starting with a capital letter, is a person, and any other name
  that contains \<open>" - "\<close> is a concept; then a month abbreviation or one of \<open>th,\<close> \<open>st,\<close>
  \<open>nd,\<close> \<open>rd,\<close> makes a date; then a project keyword makes a project; then a technical
  keyword makes a concept; then a whole name of 2 or 3 capitalized words is a person;
  anything else is a concept.
\<close>

theorem classifyPageType_rules:
  "classifyPageType pageName =
     (if Contains pageName '' - '' then
        (if \<not> Contains (afterFirst pageName '' - '') '' - '' \<and>
            capitalizedWords 2 4 (beforeFirst pageName '' - '')
         then ''person'' else ''concept'')
      else if \<exists>k \<in> set [''Jan'', ''Feb'', ''Mar'', ''Apr'', ''May'', ''Jun'', ''Jul'', ''Aug'',
                 ''Sep'', ''Oct'', ''Nov'', ''Dec'', ''th,'', ''st,'', ''nd,'', ''rd,'']. Contains pageName k
        then ''date''
      else if \<exists>k \<in> set [''Sprint'', ''Project'', ''Phase'', ''Release'', ''Milestone'']. Contains pageName k
        then ''project''
      else if \<exists>k \<in> set [''API'', ''Service'', ''Architecture'', ''System'', ''Design'',
                 ''Framework'', ''Database'', ''Server'', ''Team'', ''Stack'', ''Platform'']. Contains pageName k
        then ''concept''
      else if capitalizedWords 2 3 pageName then ''person''
      else ''concept'')"
proof -
  have a: "(length (Split pageName '' - '') = 2 \<and> looksLikeName (Split pageName '' - '' ! 0)) \<longleftrightarrow>
        (\<not> Contains (afterFirst pageName '' - '') '' - '' \<and>
            capitalizedWords 2 4 (beforeFirst pageName '' - ''))"
    if "Contains pageName '' - ''"
    using that by (simp only: Split_length2 Split_first looksLikeName_iff) simp
  have b: "(2 \<le> length (Fields pageName) \<and> length (Fields pageName) \<le> 3 \<and> looksLikeName pageName)
       \<longleftrightarrow> capitalizedWords 2 3 pageName"
    by (auto simp: looksLikeName_iff capitalizedWords_def)
  show ?thesis
  proof (cases "Contains pageName '' - ''")
    case True
    have "classifyPageType pageName =
        (if length (Split pageName '' - '') = 2 \<and> looksLikeName (Split pageName '' - '' ! 0)
         then ''person'' else ''concept'')"
      unfolding classifyPageType_def Let_def using True by (simp only: if_True)
    then show ?thesis
      unfolding a [OF True] using True by (simp only: if_True)
  next
    case False
    have "classifyPageType pageName =
        (if containsAny pageName dateKeywords then ''date''
         else if containsAny pageName projectKeywords then ''project''
         else if containsAny pageName techKeywords then ''concept''
         else if 2 \<le> length (Fields pageName) \<and> length (Fields pageName) \<le> 3 \<and> looksLikeName pageName
              then ''person'' else ''concept'')"
      unfolding classifyPageType_def Let_def using False by (simp only: if_False)
    then show ?thesis
      unfolding b containsAny_iff dateKeywords_def projectKeywords_def techKeywords_def
      using False by (simp only: if_False)
  qed
qed

theorem classifyPageType_rules_witness:
  "Contains ''John Smith - Engineering Lead'' '' - '' \<and>
   \<not> Contains (afterFirst ''John Smith - Engineering Lead'' '' - '') '' - '' \<and>
   capitalizedWords 2 4 (beforeFirst ''John Smith - Engineering Lead'' '' - '') \<and>
   classifyPageType ''John Smith - Engineering Lead'' = ''person''"
proof -
  have c: "Contains ''John Smith - Engineering Lead'' '' - ''"
    by code_simp
  have d: "\<not> Contains (afterFirst ''John Smith - Engineering Lead'' '' - '') '' - ''"
    by code_simp
  have e: "capitalizedWords 2 4 (beforeFirst ''John Smith - Engineering Lead'' '' - '')"
    by code_simp
  have "classifyPageType ''John Smith - Engineering Lead'' = ''person''"
    unfolding classifyPageType_rules [of "''John Smith - Engineering Lead''"]
    using c d e by (simp only: if_True simp_thms)
  with c d e show ?thesis
    by blast
qed

text \<open>
  C9 as stated fails: this name contains \<open>" - "\<close> and the part before it is a two-word
  capitalized name, yet it is not classified as a person, since \<open>" - "\<close> occurs twice.
\<close>

theorem classifyPageType_counterexample:
  "Contains ''John Smith - CEO - Acme'' '' - '' \<and>
   beforeFirst ''John Smith - CEO - Acme'' '' - '' = ''John Smith'' \<and>
   capitalizedWords 2 4 (beforeFirst ''John Smith - CEO - Acme'' '' - '') \<and>
   classifyPageType ''John Smith - CEO - Acme'' \<noteq> ''person''"
  by code_simp

section \<open>The task index\<close>

lemma StatusBreakdown_indexTask:
  "lookupInt (StatusBreakdown (Statistics (indexTask index task))) st =
     lookupInt (StatusBreakdown (Statistics index)) st + (if Status task = st then 1 else 0)"
  by (simp add: indexTask_def Let_def lookupInt_def)

lemma StatusBreakdown_indexTasks:
  "lookupInt (StatusBreakdown (Statistics (indexTasks index tasks))) st =
     lookupInt (StatusBreakdown (Statistics index)) st + int (countStatus st tasks)"
  by (induction tasks arbitrary: index) (simp_all add: StatusBreakdown_indexTask countStatus_def)

lemma CompletionRate_indexTask:
  "CompletionRate (Statistics (indexTask index task)) = CompletionRate (Statistics index)"
  by (simp add: indexTask_def Let_def)

lemma CompletionRate_indexTasks:
  "CompletionRate (Statistics (indexTasks index tasks)) = CompletionRate (Statistics index)"
  by (induction tasks arbitrary: index) (simp_all add: CompletionRate_indexTask)

text \<open>
  C3 (amended). The completion rate that \<open>BuildTaskIndex\<close> computes is a percentage in
  64-bit floating point: the number of DONE tasks and the number of tasks are converted
  to \<open>float64\<close>, the first is divided by the second and the quotient is multiplied by 100,
  each operation rounding to the nearest \<open>float64\<close>. When there is no task the division
  is not carried out and the rate is 0.
\<close>

theorem BuildTaskIndex_CompletionRate:
  "CompletionRate (Statistics (BuildTaskIndex tasks)) =
     (if length tasks = 0 then Finite 0
      else fmul (fdiv (fromInt (int (countStatus StatusDONE tasks))) (fromInt (int (length tasks))))
                (Finite 100))"
proof (cases tasks)
  case Nil
  then show ?thesis
    by (simp add: BuildTaskIndex_def emptyTaskIndex_def)
next
  case (Cons t ts)
  have "lookupInt (StatusBreakdown (Statistics (indexTasks (emptyTaskIndex tasks) tasks))) StatusDONE
      = int (countStatus StatusDONE tasks)"
    by (simp add: StatusBreakdown_indexTasks) (simp add: emptyTaskIndex_def lookupInt_def)
  with Cons show ?thesis
    by (simp add: BuildTaskIndex_def Let_def)
qed

lemma fromInt_0: "fromInt 0 = Finite 0"
  by (simp add: fromInt_def roundFloat_def)

lemma roundFloat_1: "roundFloat 1 = Finite 1"
  by (simp add: roundFloat_def floorLog2_def bitLength.simps pow2_def roundHalfEven_def Let_def)

lemma roundFloat_100: "roundFloat 100 = Finite 100"
  by (simp add: roundFloat_def floorLog2_def bitLength.simps pow2_def roundHalfEven_def Let_def)

lemma fromInt_1: "fromInt 1 = Finite 1"
  using roundFloat_1 by (simp add: fromInt_def)

text \<open>
  C3 as stated fails: for a single DONE task the quotient of the two counts is 1 and
  the completion rate is 100.
\<close>

theorem BuildTaskIndex_CompletionRate_counterexample:
  "countStatus StatusDONE [plainTask StatusDONE] = 1 \<and> length [plainTask StatusDONE] = 1 \<and>
   fdiv (fromInt 1) (fromInt 1) = Finite 1 \<and>
   CompletionRate (Statistics (BuildTaskIndex [plainTask StatusDONE])) = Finite 100 \<and>
   CompletionRate (Statistics (BuildTaskIndex [plainTask StatusDONE])) \<noteq>
     fdiv (fromInt (int (countStatus StatusDONE [plainTask StatusDONE])))
          (fromInt (int (length [plainTask StatusDONE])))"
proof -
  have c: "countStatus StatusDONE [plainTask StatusDONE] = 1"
    by (simp add: countStatus_def plainTask_def)
  have d: "fdiv (fromInt 1) (fromInt 1) = Finite 1"
    by (simp add: fromInt_1 roundFloat_1)
  have r: "CompletionRate (Statistics (BuildTaskIndex [plainTask StatusDONE])) = Finite 100"
    by (simp add: BuildTaskIndex_CompletionRate c fromInt_1 roundFloat_1 roundFloat_100)
  show ?thesis
    by (simp add: c d r)
qed

text \<open>Without the check for an empty list the rate of no tasks would be a NaN.\<close>

lemma CompletionRate_unguarded:
  "fmul (fdiv (fromInt 0) (fromInt 0)) (Finite 100) = NaN"
  by (simp add: fromInt_0)

section \<open>The calendar and the start of the week\<close>




















section \<open>Clock lines\<close>

text \<open>None of the parsers of integers and durations returns an error, so the branch of
  \<open>parseClockLine\<close> that computes the duration from the time stamps is never taken.\<close>

lemma simpleIntLoop_no_error: "simpleIntLoop result s \<noteq> Inl err"
  by (induction s arbitrary: result) auto

lemma parseSimpleInt_no_error: "parseSimpleInt s \<noteq> Inl err"
  by (simp add: parseSimpleInt_def Let_def simpleIntLoop_no_error)

lemma parseIntString_no_error: "parseIntString s \<noteq> Inl err"
  by (auto simp: parseIntString_def Let_def parseSimpleInt_no_error split: sum.splits)

lemma parseIntegers_no_error: "parseIntegers strs \<noteq> Inl err"
  by (induction strs) (auto simp: parseIntString_no_error split: sum.splits)

lemma parseLogseqDuration_no_error: "parseLogseqDuration s \<noteq> Inl err"
  using parseIntegers_no_error
  by (auto simp: parseLogseqDuration_def Let_def simp del: parseIntegers.simps split: sum.splits)

lemma parseLogseqDuration_not_three:
  "length (Split (TrimSpace s) '':'') \<noteq> 3 \<Longrightarrow> parseLogseqDuration s = Inr 0"
  by (simp add: parseLogseqDuration_def Let_def)

lemma parseClockLine_duration:
  assumes "parseClockLine line = Some entry"
  shows "\<exists>startStr endStr durationStr.
           findClockLine line = Some (startStr, endStr, durationStr) \<and>
           parseLogseqTime startStr = Some (Start entry) \<and>
           parseLogseqTime endStr = Some (End entry) \<and>
           parseLogseqDuration durationStr = Inr (Duration entry)"
  using assms parseLogseqDuration_no_error
  by (auto simp: parseClockLine_def Let_def split: option.splits sum.splits)

text \<open>
  C1. The claim holds of the code but for one case: a clock line whose time stamps
  parse and whose duration text is not of the form \<open>HH:MM:SS\<close> gets the duration 0, not
  the difference of its time stamps. Here the time stamps are two hours apart and the
  duration text is \<open>abc\<close>.
\<close>

theorem parseClockLine_bad_duration:
  "parseClockLine badDurationLine =
     Some \<lparr>Start = timeDate 2025 4 6 10 0 0 0 UTC, End = timeDate 2025 4 6 12 0 0 0 UTC,
           Duration = 0\<rparr> \<and>
   Sub (timeDate 2025 4 6 12 0 0 0 UTC) (timeDate 2025 4 6 10 0 0 0 UTC) = 2 * Hour \<and>
   2 * Hour \<noteq> (0 :: Duration)"
  by code_simp

text \<open>The parts of C1 that hold: an explicit duration is taken as it is written, also
  with more than 24 hours; a clock line whose time stamp does not parse is left out and
  the lines after it and the task are kept.\<close>

lemma parseClockLine_round_trip:
  "parseClockLine ''CLOCK: [2025-04-06 Sun 10:00:00]--[2025-04-06 Sun 12:00:00] =>  02:00:00'' =
     Some \<lparr>Start = timeDate 2025 4 6 10 0 0 0 UTC, End = timeDate 2025 4 6 12 0 0 0 UTC,
           Duration = 2 * Hour\<rparr>"
  by code_simp

lemma parseLogseqDuration_long:
  "parseLogseqDuration ''260:46:44'' = Inr (260 * Hour + 46 * Minute + 44 * Second) \<and>
   sint (260 * Hour + 46 * Minute + 44 * Second :: Duration) = 938804 * 1000000000"
  by code_simp

lemma logbookLoop_skip:
  "parseClockLine (TrimSpace l) = None \<Longrightarrow> \<not> Contains (TrimSpace l) '':END:'' \<Longrightarrow>
   logbookLoop entries n (l # rest) = logbookLoop entries (n + 1) rest"
  by (simp add: Let_def)

lemma bad_time_stamp_dropped:
  "map (\<lambda>t. (Task.LineNumber t, map Duration (Logbook t))) (ParseTasks badStampNote ''journals/2025_04_07.md'')
     = [(1, [Hour + 30 * Minute])]"
  by code_simp

end
